theory Spec2Isabelle
  imports Main
begin

section \<open>The weather dashboard: data model\<close>

text \<open>
  The embedding follows \<^verbatim>\<open>src/app/page.tsx\<close>; the built-in operations the source
  calls (\<^verbatim>\<open>Date\<close>, property reads, template literals, comparisons) are modelled by
  their ECMAScript semantics. A JavaScript \<^verbatim>\<open>number\<close> is a double; the program never
  computes with the numbers of a payload (it moves them, tests one for truthiness and
  renders one into a string), so the type of numbers is the type parameter \<open>'n\<close> and
  the two operations on it are given by a \<open>number_model\<close>.
\<close>

record 'n number_model =
  number_to_string :: "'n \<Rightarrow> string"
  number_truthy :: "'n \<Rightarrow> bool"

text \<open>\<^verbatim>\<open>interface DailyWeatherData\<close> (lines 19-24): four parallel arrays.\<close>

record 'n DailyWeatherData =
  time :: "string list"
  temperature_2m_max :: "'n list"
  temperature_2m_min :: "'n list"
  precipitation_sum :: "'n list"

text \<open>
  \<^verbatim>\<open>interface WeatherApiResponse\<close> (lines 26-41). Only \<^verbatim>\<open>daily\<close> is ever read; the
  metadata fields (latitude, timezone, units and so on) live in the extension slot of the
  record, and every function below takes the record scheme.
\<close>

record 'n WeatherApiResponse =
  daily :: "'n DailyWeatherData"

text \<open>
  \<^verbatim>\<open>interface ChartDataPoint\<close> (lines 43-48). Reading a JavaScript array past its
  end yields \<^verbatim>\<open>undefined\<close> and does not throw, so the three numeric fields are
  options: \<open>None\<close> is \<^verbatim>\<open>undefined\<close>.
\<close>

record 'n ChartDataPoint =
  date :: string
  minTemp :: "'n option"
  maxTemp :: "'n option"
  precipitation :: "'n option"

section \<open>The transform (lines 84-97)\<close>

text \<open>\<^verbatim>\<open>xs[i]\<close> on an array: the element, or \<^verbatim>\<open>undefined\<close> out of range.\<close>

definition js_index :: "'a list \<Rightarrow> nat \<Rightarrow> 'a option" where
  "js_index xs i = (if i < length xs then Some (xs ! i) else None)"

text \<open>
  The body of the \<^verbatim>\<open>for\<close> loop: the record pushed at index \<open>i\<close>. The loop guard
  gives \<open>i < length (time d)\<close>, so \<^verbatim>\<open>daily.time[i]\<close> is in range there.
\<close>

definition chart_point :: "'n DailyWeatherData \<Rightarrow> nat \<Rightarrow> 'n ChartDataPoint" where
  "chart_point d i =
     \<lparr>date = time d ! i,
      minTemp = js_index (temperature_2m_min d) i,
      maxTemp = js_index (temperature_2m_max d) i,
      precipitation = js_index (precipitation_sum d) i\<rparr>"

text \<open>
  \<^verbatim>\<open>for (let i = 0; i < daily.time.length; i++) { transformed.push({...}) }\<close>: the loop
  counter and the array built so far are the arguments.
\<close>

function transform_loop ::
  "'n DailyWeatherData \<Rightarrow> nat \<Rightarrow> 'n ChartDataPoint list \<Rightarrow> 'n ChartDataPoint list" where
  "transform_loop d i transformed =
     (if i < length (time d)
      then transform_loop d (Suc i) (transformed @ [chart_point d i])
      else transformed)"
  by pat_completeness auto
termination
  by (relation "measure (\<lambda>(d, i, transformed). length (time d) - i)") auto

definition transformWeatherData ::
  "('n, 'z) WeatherApiResponse_scheme \<Rightarrow> 'n ChartDataPoint list" where
  "transformWeatherData apiData = (let d = daily apiData in transform_loop d 0 [])"

section \<open>Date utilities (lines 57-70)\<close>

text \<open>
  The time value of a \<^verbatim>\<open>Date\<close> object: milliseconds since the epoch (UTC), or
  \<^verbatim>\<open>NaN\<close> for an invalid date.
\<close>

datatype time_value = NaN | TimeValue int

definition msPerDay :: int where
  "msPerDay = 86400000"

definition is_leap_year :: "int \<Rightarrow> bool" where
  "is_leap_year y = (y mod 4 = 0 \<and> (y mod 400 = 0 \<or> y mod 100 \<noteq> 0))"

definition days_in_month :: "int \<Rightarrow> int \<Rightarrow> int" where
  "days_in_month y m =
     (if m = 2 then (if is_leap_year y then 29 else 28)
      else if m = 4 \<or> m = 6 \<or> m = 9 \<or> m = 11 then 30
      else 31)"

text \<open>
  The day number (days since 1970-01-01) of a date of the proleptic Gregorian calendar,
  months counted from 1. The year is counted from March, so that the leap day is the
  last day of the counted year.
\<close>

definition days_from_civil :: "int \<Rightarrow> int \<Rightarrow> int \<Rightarrow> int" where
  "days_from_civil y m d =
     (let y' = (if m \<le> 2 then y - 1 else y);
          mp = (m + 9) mod 12
      in 365 * y' + y' div 4 - y' div 100 + y' div 400 + (153 * mp + 2) div 5 + d - 1 - 719468)"

definition digit_value :: "char \<Rightarrow> int option" where
  "digit_value c =
     map_of [(CHR ''0'', 0), (CHR ''1'', 1), (CHR ''2'', 2), (CHR ''3'', 3), (CHR ''4'', 4),
             (CHR ''5'', 5), (CHR ''6'', 6), (CHR ''7'', 7), (CHR ''8'', 8), (CHR ''9'', 9)] c"

fun digits_value :: "int \<Rightarrow> string \<Rightarrow> int option" where
  "digits_value acc [] = Some acc"
| "digits_value acc (c # cs) =
     (case digit_value c of None \<Rightarrow> None | Some v \<Rightarrow> digits_value (10 * acc + v) cs)"

text \<open>
  The date-only form \<^verbatim>\<open>YYYY-MM-DD\<close> of the ECMAScript date-time string format, the
  form an \<^verbatim>\<open><input type="date">\<close> produces: four, two and two digits, a month of the
  year and a day of that month.
\<close>

definition parse_iso_date :: "string \<Rightarrow> (int \<times> int \<times> int) option" where
  "parse_iso_date s =
     (if length s = 10 \<and> s ! 4 = CHR ''-'' \<and> s ! 7 = CHR ''-'' then
        (case (digits_value 0 (take 4 s), digits_value 0 (take 2 (drop 5 s)),
               digits_value 0 (drop 8 s)) of
           (Some y, Some m, Some d) \<Rightarrow>
             if 1 \<le> m \<and> m \<le> 12 \<and> 1 \<le> d \<and> d \<le> days_in_month y m
             then Some (y, m, d) else None
         | _ \<Rightarrow> None)
      else None)"

text \<open>
  \<^verbatim>\<open>new Date(s)\<close> for a string \<open>s\<close>. ECMAScript fixes the result for the date-only
  form: midnight UTC of that day. What any other string parses to (another format, or
  \<^verbatim>\<open>NaN\<close>) is left to the engine, the parameter \<open>engine\<close>. The constructor does not
  throw on a string.
\<close>

definition Date_parse :: "(string \<Rightarrow> time_value) \<Rightarrow> string \<Rightarrow> time_value" where
  "Date_parse engine s =
     (case parse_iso_date s of
        Some (y, m, d) \<Rightarrow> TimeValue (days_from_civil y m d * msPerDay)
      | None \<Rightarrow> engine s)"

text \<open>
  \<^verbatim>\<open>a <= b\<close> on two \<^verbatim>\<open>Date\<close> objects compares their time values as numbers; a
  comparison with \<^verbatim>\<open>NaN\<close> is false.
\<close>

fun js_le :: "time_value \<Rightarrow> time_value \<Rightarrow> bool" where
  "js_le (TimeValue a) (TimeValue b) = (a \<le> b)"
| "js_le a b = False"

text \<open>\<^verbatim>\<open>isValidDateRange\<close> (lines 57-59).\<close>

definition isValidDateRange :: "(string \<Rightarrow> time_value) \<Rightarrow> string \<Rightarrow> string \<Rightarrow> bool" where
  "isValidDateRange engine startDate endDate =
     js_le (Date_parse engine startDate) (Date_parse engine endDate)"

text \<open>
  The inverse: the year, month (from 1) and day of the month of a day number. The day
  within the 400-year era is split into centuries, four-year cycles and years counted
  from March; the last day of an era and of a cycle is a leap day, which the two
  \<open>min\<close> keep in the last century and the last year.
\<close>

definition civil_from_days :: "int \<Rightarrow> int \<times> int \<times> int" where
  "civil_from_days z =
     (let z' = z + 719468;
          era = z' div 146097;
          doe = z' mod 146097;
          cent = min (doe div 36524) 3;
          doc = doe - 36524 * cent;
          quad = doc div 1461;
          doq = doc mod 1461;
          yoq = min (doq div 365) 3;
          doy = doq - 365 * yoq;
          yoe = 100 * cent + 4 * quad + yoq;
          mp = (5 * doy + 2) div 153;
          d = doy - (153 * mp + 2) div 5 + 1;
          m = (if mp < 10 then mp + 3 else mp - 9);
          y = yoe + 400 * era
      in (if m \<le> 2 then y + 1 else y, m, d))"

text \<open>
  The abstract operations of ECMAScript on time values. \<open>MakeDay\<close> takes the first of
  the month and adds the day of the month, which may be zero, negative or past the end of
  the month: this is the month and year rollover of \<^verbatim>\<open>setDate\<close>. Months count from 1
  here. \<open>TimeClip\<close> gives \<^verbatim>\<open>NaN\<close> beyond 100,000,000 days from the epoch.
\<close>

definition Day :: "int \<Rightarrow> int" where
  "Day t = t div msPerDay"

definition TimeWithinDay :: "int \<Rightarrow> int" where
  "TimeWithinDay t = t mod msPerDay"

definition MakeDay :: "int \<Rightarrow> int \<Rightarrow> int \<Rightarrow> int" where
  "MakeDay y m dt = days_from_civil y m 1 + dt - 1"

definition MakeDate :: "int \<Rightarrow> int \<Rightarrow> int" where
  "MakeDate day tm = day * msPerDay + tm"

definition TimeClip :: "int \<Rightarrow> time_value" where
  "TimeClip t = (if \<bar>t\<bar> > 8640000000000000 then NaN else TimeValue t)"

text \<open>
  The time zone of the environment: the offset of local time from UTC in milliseconds,
  as a function of a UTC time value (used by \<open>LocalTime\<close>) and of a local time value
  (used by \<open>UTC\<close>). With daylight saving time the offset is not constant.
\<close>

record timezone =
  offset_at_utc :: "int \<Rightarrow> int"
  offset_at_local :: "int \<Rightarrow> int"

definition LocalTime :: "timezone \<Rightarrow> int \<Rightarrow> int" where
  "LocalTime tz t = t + offset_at_utc tz t"

definition UTC :: "timezone \<Rightarrow> int \<Rightarrow> int" where
  "UTC tz t = t - offset_at_local tz t"

text \<open>
  \<^verbatim>\<open>date.getDate()\<close> is the day of the month in local time; \<^verbatim>\<open>date.setDate(dt)\<close>
  replaces the day of the month in local time, keeps the local time of day and converts
  back to UTC.
\<close>

definition getDate :: "timezone \<Rightarrow> int \<Rightarrow> int" where
  "getDate tz t = (case civil_from_days (Day (LocalTime tz t)) of (y, m, d) \<Rightarrow> d)"

definition setDate :: "timezone \<Rightarrow> int \<Rightarrow> int \<Rightarrow> time_value" where
  "setDate tz t dt =
     (let lt = LocalTime tz t in
      case civil_from_days (Day lt) of
        (y, m, d) \<Rightarrow> TimeClip (UTC tz (MakeDate (MakeDay y m dt) (TimeWithinDay lt))))"

text \<open>
  Fixed-width decimal fields. \<open>digit_char\<close> is applied to digits, numbers below 10,
  only.
\<close>

definition digit_char :: "nat \<Rightarrow> char" where
  "digit_char d = ''0123456789'' ! d"

definition pad2 :: "int \<Rightarrow> string" where
  "pad2 n = [digit_char (nat (n div 10 mod 10)), digit_char (nat (n mod 10))]"

definition pad3 :: "int \<Rightarrow> string" where
  "pad3 n = digit_char (nat (n div 100 mod 10)) # pad2 n"

definition pad4 :: "int \<Rightarrow> string" where
  "pad4 n = digit_char (nat (n div 1000 mod 10)) # pad3 n"

definition pad6 :: "int \<Rightarrow> string" where
  "pad6 n =
     digit_char (nat (n div 100000 mod 10)) # digit_char (nat (n div 10000 mod 10)) # pad4 n"

definition iso_year :: "int \<Rightarrow> string" where
  "iso_year y =
     (if 0 \<le> y \<and> y \<le> 9999 then pad4 y
      else if y < 0 then CHR ''-'' # pad6 (- y) else CHR ''+'' # pad6 y)"

definition iso_date :: "int \<times> int \<times> int \<Rightarrow> string" where
  "iso_date ymd = (case ymd of (y, m, d) \<Rightarrow> iso_year y @ ''-'' @ pad2 m @ ''-'' @ pad2 d)"

text \<open>
  \<^verbatim>\<open>toISOString()\<close> renders the UTC fields of the time value, and throws a
  \<^verbatim>\<open>RangeError\<close> on an invalid date. \<^verbatim>\<open>.split('T')[0]\<close> is the text before the
  first \<^verbatim>\<open>T\<close>.
\<close>

datatype date_error = RangeError

fun toISOString :: "time_value \<Rightarrow> date_error + string" where
  "toISOString NaN = Inl RangeError"
| "toISOString (TimeValue t) =
     (let tm = TimeWithinDay t in
      Inr (iso_date (civil_from_days (Day t)) @ ''T'' @ pad2 (tm div 3600000) @ '':'' @
           pad2 (tm div 60000 mod 60) @ '':'' @ pad2 (tm div 1000 mod 60) @ ''.'' @
           pad3 (tm mod 1000) @ ''Z''))"

definition split_T_first :: "string \<Rightarrow> string" where
  "split_T_first s = takeWhile (\<lambda>c. c \<noteq> CHR ''T'') s"

text \<open>
  \<^verbatim>\<open>getTodayDateString\<close> (lines 61-64) and \<^verbatim>\<open>getDateStringDaysAgo\<close> (lines 66-70).
  \<^verbatim>\<open>new Date()\<close> reads the clock: \<open>now\<close> is its time value.
\<close>

definition getTodayDateString :: "int \<Rightarrow> date_error + string" where
  "getTodayDateString now = map_sum id split_T_first (toISOString (TimeValue now))"

definition getDateStringDaysAgo :: "timezone \<Rightarrow> int \<Rightarrow> int \<Rightarrow> date_error + string" where
  "getDateStringDaysAgo tz now daysAgo =
     (let date0 = now;
          date1 = setDate tz date0 (getDate tz date0 - daysAgo)
      in map_sum id split_T_first (toISOString date1))"

section \<open>JSON values and the JavaScript operations the hook applies to them\<close>

datatype 'n json =
    JNull
  | JBool bool
  | JNumber 'n
  | JString string
  | JArray "'n json list"
  | JObject "(string \<times> 'n json) list"

text \<open>Truthiness (\<^verbatim>\<open>ToBoolean\<close>) of a value parsed from JSON.\<close>

fun truthy :: "'n number_model \<Rightarrow> 'n json \<Rightarrow> bool" where
  "truthy N JNull = False"
| "truthy N (JBool b) = b"
| "truthy N (JNumber x) = number_truthy N x"
| "truthy N (JString s) = (s \<noteq> [])"
| "truthy N (JArray xs) = True"
| "truthy N (JObject kvs) = True"

text \<open>
  \<^verbatim>\<open>v.reason\<close> for a value \<open>v\<close> parsed from JSON; \<open>None\<close> is \<^verbatim>\<open>undefined\<close>. An object
  has the property when the key occurs in it (\<^verbatim>\<open>JSON.parse\<close> keeps the last of several
  equal keys); strings, numbers, booleans and arrays have no property of that name. The
  source reads the property only behind \<^verbatim>\<open>errorData &&\<close>, hence never of \<^verbatim>\<open>null\<close>.
\<close>

fun reason_property :: "'n json \<Rightarrow> 'n json option" where
  "reason_property (JObject kvs) = map_of (rev kvs) ''reason''"
| "reason_property v = None"

fun join_comma :: "string option list \<Rightarrow> string option" where
  "join_comma [] = Some []"
| "join_comma [x] = x"
| "join_comma (x # y # ys) =
     (case x of
        None \<Rightarrow> None
      | Some s \<Rightarrow> (case join_comma (y # ys) of None \<Rightarrow> None | Some t \<Rightarrow> Some (s @ '','' @ t)))"

text \<open>
  \<^verbatim>\<open>ToString\<close>, which a template literal applies to a substituted value; \<open>None\<close> is a
  thrown \<^verbatim>\<open>TypeError\<close>. An array is its elements joined by commas, \<^verbatim>\<open>null\<close> elements
  as the empty string. An object is \<^verbatim>\<open>[object Object]\<close>, unless it has a key
  \<^verbatim>\<open>toString\<close> of its own: that value shadows the inherited method, is not callable,
  and the conversion throws.
\<close>

fun to_string :: "'n number_model \<Rightarrow> 'n json \<Rightarrow> string option" where
  "to_string N JNull = Some ''null''"
| "to_string N (JBool b) = Some (if b then ''true'' else ''false'')"
| "to_string N (JNumber x) = Some (number_to_string N x)"
| "to_string N (JString s) = Some s"
| "to_string N (JArray xs) =
     join_comma (map (\<lambda>x. if x = JNull then Some [] else to_string N x) xs)"
| "to_string N (JObject kvs) =
     (if ''toString'' \<in> fst ` set kvs then None else Some ''[object Object]'')"

text \<open>
  The decimal digits of a natural number, as \<^verbatim>\<open>ToString\<close> renders an integer-valued
  number such as an HTTP status.
\<close>

function decimal :: "nat \<Rightarrow> string" where
  "decimal n = (if n < 10 then [digit_char n] else decimal (n div 10) @ [digit_char (n mod 10)])"
  by pat_completeness auto
termination
  by (relation "measure id") auto

section \<open>The data hook: \<^verbatim>\<open>fetchData\<close> (lines 99-146)\<close>

text \<open>
  What a \<^verbatim>\<open>catch\<close> clause receives: a value that is an instance of \<^verbatim>\<open>Error\<close>, with
  its \<^verbatim>\<open>message\<close>, or any other thrown value.
\<close>

datatype js_thrown = ErrorInstance string | OtherValue

text \<open>
  The \<^verbatim>\<open>Response\<close> that \<^verbatim>\<open>fetch\<close> resolves to. \<^verbatim>\<open>response.json()\<close> rejects (the body
  is not JSON) or resolves to the parsed body. The source reads the body once, on one of
  two branches: as an untyped value on the failure branch (line 121), where it inspects it
  dynamically, and at the declared type \<^verbatim>\<open>WeatherApiResponse\<close> on the success branch
  (line 131). The two fields are these two readings; the embedding follows the declared
  type on the success branch.
\<close>

record 'n Response =
  ok :: bool
  status :: nat
  statusText :: string
  json_errorData :: "js_thrown + 'n json"
  json_apiResponse :: "js_thrown + 'n WeatherApiResponse"

datatype 'n fetch_result = Rejects js_thrown | Resolves "'n Response"

text \<open>
  The effects of the component, in the order the code performs them: the state setters
  and the network request.
\<close>

datatype 'n effect =
    SetLoading bool
  | SetError "string option"
  | SetData "'n ChartDataPoint list option"
  | SetDateRangeError "string option"
  | Fetch string

definition OPEN_METEO_BASE_URL :: string where
  "OPEN_METEO_BASE_URL = ''https://api.open-meteo.com/v1/forecast''"

definition apiUrl :: "'n number_model \<Rightarrow> 'n \<Rightarrow> 'n \<Rightarrow> string \<Rightarrow> string \<Rightarrow> string" where
  "apiUrl N latitude longitude startDate endDate =
     OPEN_METEO_BASE_URL @ ''?latitude='' @ number_to_string N latitude @
     ''&longitude='' @ number_to_string N longitude @
     ''&daily=temperature_2m_max,temperature_2m_min,precipitation_sum&timezone=auto&start_date='' @
     startDate @ ''&end_date='' @ endDate"

text \<open>Line 119: the message built before the body is looked at.\<close>

definition status_message :: "('n, 'z) Response_scheme \<Rightarrow> string" where
  "status_message response =
     ''Failed to fetch weather data: '' @ decimal (status response) @ '' '' @ statusText response"

text \<open>
  Lines 119-127: \<^verbatim>\<open>errorMsg\<close> after the inner \<^verbatim>\<open>try\<close>. Whatever is thrown inside it
  (by \<^verbatim>\<open>response.json()\<close> or by the template literal) is swallowed by the empty
  \<^verbatim>\<open>catch (parseError)\<close> and leaves the first message in place.
\<close>

definition errorMsg :: "'n number_model \<Rightarrow> ('n, 'z) Response_scheme \<Rightarrow> string" where
  "errorMsg N response =
     (case json_errorData response of
        Inl parseError \<Rightarrow> status_message response
      | Inr errorData \<Rightarrow>
          (if truthy N errorData then
             (case reason_property errorData of
                None \<Rightarrow> status_message response
              | Some reason \<Rightarrow>
                  (if truthy N reason then
                     (case to_string N reason of
                        None \<Rightarrow> status_message response
                      | Some rendered \<Rightarrow> ''API Error: '' @ rendered)
                   else status_message response))
           else status_message response))"

text \<open>
  Lines 116-132, the \<^verbatim>\<open>try\<close> block after the request: it throws (\<open>Inl\<close>) or reaches
  \<^verbatim>\<open>setData\<close> with the transformed records (\<open>Inr\<close>).
\<close>

definition try_block ::
  "'n number_model \<Rightarrow> 'n fetch_result \<Rightarrow> js_thrown + 'n ChartDataPoint list" where
  "try_block N result =
     (case result of
        Rejects err \<Rightarrow> Inl err
      | Resolves response \<Rightarrow>
          (if \<not> ok response then Inl (ErrorInstance (errorMsg N response))
           else (case json_apiResponse response of
                   Inl err \<Rightarrow> Inl err
                 | Inr apiResponse \<Rightarrow> Inr (transformWeatherData apiResponse))))"

text \<open>Lines 134-139, the \<^verbatim>\<open>catch (err)\<close> clause.\<close>

fun catch_clause :: "js_thrown \<Rightarrow> 'n effect list" where
  "catch_clause (ErrorInstance message) = [SetError (Some message)]"
| "catch_clause OtherValue = [SetError (Some ''An unknown error occurred.'')]"

text \<open>
  \<^verbatim>\<open>fetchData\<close> (lines 104-143). The network is the parameter \<open>fetch\<close>: what the
  request to a URL settles to. The result is the sequence of effects of one call.
\<close>

definition fetchData ::
  "'n number_model \<Rightarrow> (string \<Rightarrow> 'n fetch_result) \<Rightarrow> 'n \<Rightarrow> 'n \<Rightarrow> string \<Rightarrow> string \<Rightarrow>
     'n effect list" where
  "fetchData N fetch latitude longitude startDate endDate =
     [SetLoading True, SetError None, SetData None] @
     (let url = apiUrl N latitude longitude startDate endDate in
        [Fetch url] @
        (case try_block N (fetch url) of
           Inr transformedData \<Rightarrow> [SetData (Some transformedData)]
         | Inl err \<Rightarrow> catch_clause err) @
        [SetLoading False])"

text \<open>
  The two halves of a call. An \<^verbatim>\<open>async\<close> function runs without interruption up to
  its first \<^verbatim>\<open>await\<close> (line 116): the three resets and the request. What follows the
  \<^verbatim>\<open>await\<close>s (lines 118-142) runs when the promises have settled, and performs the
  remaining effects. Between the two halves other code runs: the effect of lines 328-330
  calls \<^verbatim>\<open>handleApplyFilter\<close> again whenever a date is edited, and nothing cancels a
  pending call, so the halves of two calls can interleave.
\<close>

definition fetchData_before_await ::
  "'n number_model \<Rightarrow> 'n \<Rightarrow> 'n \<Rightarrow> string \<Rightarrow> string \<Rightarrow> 'n effect list" where
  "fetchData_before_await N latitude longitude startDate endDate =
     [SetLoading True, SetError None, SetData None] @
     [Fetch (apiUrl N latitude longitude startDate endDate)]"

definition fetchData_after_await :: "'n number_model \<Rightarrow> 'n fetch_result \<Rightarrow> 'n effect list" where
  "fetchData_after_await N result =
     (case try_block N result of
        Inr transformedData \<Rightarrow> [SetData (Some transformedData)]
      | Inl err \<Rightarrow> catch_clause err) @
     [SetLoading False]"

section \<open>The component state and \<^verbatim>\<open>handleApplyFilter\<close> (lines 301-325)\<close>

text \<open>
  The state of the component: the three cells of the hook (lines 100-102) and the three
  of \<^verbatim>\<open>App\<close> (lines 306-308).
\<close>

record 'n AppState =
  data :: "'n ChartDataPoint list option"
  loading :: bool
  error :: "string option"
  startDate :: string
  endDate :: string
  dateRangeError :: "string option"

fun apply_effect :: "'n effect \<Rightarrow> 'n AppState \<Rightarrow> 'n AppState" where
  "apply_effect (SetLoading b) st = st\<lparr>loading := b\<rparr>"
| "apply_effect (SetError e) st = st\<lparr>error := e\<rparr>"
| "apply_effect (SetData d) st = st\<lparr>data := d\<rparr>"
| "apply_effect (SetDateRangeError e) st = st\<lparr>dateRangeError := e\<rparr>"
| "apply_effect (Fetch url) st = st"

definition run :: "'n effect list \<Rightarrow> 'n AppState \<Rightarrow> 'n AppState" where
  "run effects st = fold apply_effect effects st"

fun is_Fetch :: "'n effect \<Rightarrow> bool" where
  "is_Fetch (Fetch url) = True"
| "is_Fetch e = False"


text \<open>
  \<^verbatim>\<open>handleApplyFilter\<close> (lines 318-325); the two coordinates are the constants of lines
  311-312.
\<close>

definition handleApplyFilter ::
  "'n number_model \<Rightarrow> (string \<Rightarrow> time_value) \<Rightarrow> (string \<Rightarrow> 'n fetch_result) \<Rightarrow> 'n \<Rightarrow> 'n \<Rightarrow>
     'n AppState \<Rightarrow> 'n effect list" where
  "handleApplyFilter N engine fetch ABUJA_LATITUDE ABUJA_LONGITUDE st =
     (if \<not> isValidDateRange engine (startDate st) (endDate st)
      then [SetDateRangeError (Some ''Start date cannot be after end date.'')]
      else [SetDateRangeError None] @
           fetchData N fetch ABUJA_LATITUDE ABUJA_LONGITUDE (startDate st) (endDate st))"

section \<open>Calendar order\<close>

text \<open>
  Dates as triples of year, month and day: the dates of the calendar, their order, and
  the ones the four-digit form \<^verbatim>\<open>YYYY-MM-DD\<close> can write. \<open>leap_days\<close>,
  \<open>day_of_year\<close> and \<open>march_year\<close> are the three parts of \<open>days_from_civil\<close>.
\<close>

definition leap_days :: "int \<Rightarrow> int" where
  "leap_days y = 365 * y + y div 4 - y div 100 + y div 400"

definition day_of_year :: "int \<Rightarrow> int \<Rightarrow> int" where
  "day_of_year m d = (153 * ((m + 9) mod 12) + 2) div 5 + d - 1"

definition march_year :: "int \<Rightarrow> int \<Rightarrow> int" where
  "march_year y m = (if m \<le> 2 then y - 1 else y)"

fun valid_date :: "int \<times> int \<times> int \<Rightarrow> bool" where
  "valid_date (y, m, d) = (1 \<le> m \<and> m \<le> 12 \<and> 1 \<le> d \<and> d \<le> days_in_month y m)"

fun date_less :: "int \<times> int \<times> int \<Rightarrow> int \<times> int \<times> int \<Rightarrow> bool" where
  "date_less (y1, m1, d1) (y2, m2, d2) =
     (y1 < y2 \<or> (y1 = y2 \<and> (m1 < m2 \<or> (m1 = m2 \<and> d1 < d2))))"

fun four_digit_year_date :: "int \<times> int \<times> int \<Rightarrow> bool" where
  "four_digit_year_date (y, m, d) = (0 \<le> y \<and> y \<le> 9999 \<and> valid_date (y, m, d))"

section \<open>Concrete inputs\<close>

text \<open>Integer-valued numbers, rendered in decimal; zero is the falsy one.\<close>

definition int_numbers :: "int number_model" where
  "int_numbers =
     \<lparr>number_to_string = (\<lambda>i. if i < 0 then CHR ''-'' # decimal (nat (- i)) else decimal (nat i)),
      number_truthy = (\<lambda>i. i \<noteq> 0)\<rparr>"

definition example_daily :: "int DailyWeatherData" where
  "example_daily =
     \<lparr>time = [''2024-01-01'', ''2024-01-02''],
      temperature_2m_max = [30, 31],
      temperature_2m_min = [20, 19],
      precipitation_sum = [0, 5]\<rparr>"

definition ragged_daily :: "int DailyWeatherData" where
  "ragged_daily =
     \<lparr>time = [''2024-01-01'', ''2024-01-02''],
      temperature_2m_max = [30, 31, 32],
      temperature_2m_min = [20],
      precipitation_sum = []\<rparr>"

definition stale_state :: "int AppState" where
  "stale_state =
     \<lparr>data = Some [\<lparr>date = ''2023-12-31'', minTemp = Some 18, maxTemp = Some 29,
                    precipitation = Some 1\<rparr>],
      loading = False, error = Some ''stale'',
      startDate = ''2024-03-04'', endDate = ''2024-03-10'', dateRangeError = None\<rparr>"

definition bad_request :: "int json \<Rightarrow> int Response" where
  "bad_request body =
     \<lparr>ok = False, status = 400, statusText = ''Bad Request'',
      json_errorData = Inr body, json_apiResponse = Inr \<lparr>daily = example_daily\<rparr>\<rparr>"

definition ok_response :: "int Response" where
  "ok_response =
     \<lparr>ok = True, status = 200, statusText = ''OK'',
      json_errorData = Inr (JObject []), json_apiResponse = Inr \<lparr>daily = example_daily\<rparr>\<rparr>"

definition network_down :: "string \<Rightarrow> int fetch_result" where
  "network_down url = Rejects (ErrorInstance ''Failed to fetch'')"

text \<open>
  Time zones: UTC, and the United Kingdom in 2024 (UTC+1 from 2024-03-31T01:00Z to
  2024-10-27T01:00Z, UTC otherwise).
\<close>

definition utc_zone :: timezone where
  "utc_zone = \<lparr>offset_at_utc = (\<lambda>t. 0), offset_at_local = (\<lambda>t. 0)\<rparr>"

definition europe_london_2024 :: timezone where
  "europe_london_2024 =
     \<lparr>offset_at_utc = (\<lambda>t. if 1711846800000 \<le> t \<and> t < 1729990800000 then 3600000 else 0),
      offset_at_local = (\<lambda>t. if 1711850400000 \<le> t \<and> t < 1729994400000 then 3600000 else 0)\<rparr>"

text \<open>
  Two overlapping calls: the first is issued for one range, the dates are edited and the
  second is issued before the first has settled; then the first request fails and the
  second is answered.
\<close>

definition overlapping_calls :: "int effect list" where
  "overlapping_calls =
     fetchData_before_await int_numbers 9 7 ''2024-03-04'' ''2024-03-10'' @
     fetchData_before_await int_numbers 9 7 ''2024-01-01'' ''2024-01-02'' @
     fetchData_after_await int_numbers (Rejects (ErrorInstance ''Failed to fetch'')) @
     fetchData_after_await int_numbers (Resolves ok_response)"

definition pending_state :: "int AppState" where
  "pending_state =
     \<lparr>data = None, loading = True, error = None,
      startDate = ''2024-01-01'', endDate = ''2024-01-02'', dateRangeError = None\<rparr>"

text \<open>An engine that parses nothing but the date-only form.\<close>

definition unparseable :: "string \<Rightarrow> time_value" where
  "unparseable s = NaN"

definition reversed_range_state :: "int AppState" where
  "reversed_range_state =
     \<lparr>data = Some [], loading = False, error = Some ''stale'',
      startDate = ''2024-03-11'', endDate = ''2024-03-10'', dateRangeError = None\<rparr>"

section \<open>Properties of the transform\<close>

declare transform_loop.simps [simp del]

declare decimal.simps [simp del]

lemma transform_loop_eq:
  "transform_loop d i acc = acc @ map (chart_point d) [i ..< length (time d)]"
proof (induction d i acc rule: transform_loop.induct)
  case (1 d i transformed)
  show ?case
  proof (cases "i < length (time d)")
    case True
    with "1" show ?thesis
      by (subst transform_loop.simps) (simp add: upt_conv_Cons)
  next
    case False
    then show ?thesis
      by (subst transform_loop.simps) simp
  qed
qed

lemma transformWeatherData_eq:
  "transformWeatherData apiData =
     map (chart_point (daily apiData)) [0 ..< length (time (daily apiData))]"
  by (simp add: transformWeatherData_def transform_loop_eq Let_def)

lemma length_transformWeatherData:
  "length (transformWeatherData apiData) = length (time (daily apiData))"
  by (simp add: transformWeatherData_eq)

lemma nth_transformWeatherData:
  "i < length (time (daily apiData)) \<Longrightarrow>
     transformWeatherData apiData ! i = chart_point (daily apiData) i"
  by (simp add: transformWeatherData_eq)

text \<open>
  Claim C1. For a payload whose four arrays have the same length \<open>N\<close>, the transform
  returns exactly \<open>N\<close> records, and record \<open>i\<close> pairs \<open>time[i]\<close> with the minimum, the
  maximum and the precipitation at the same index \<open>i\<close>, in the order of the source arrays.
\<close>

theorem transform_equal_lengths:
  assumes "length (time (daily apiData)) = N"
    and "length (temperature_2m_max (daily apiData)) = N"
    and "length (temperature_2m_min (daily apiData)) = N"
    and "length (precipitation_sum (daily apiData)) = N"
  shows "length (transformWeatherData apiData) = N \<and>
    (\<forall>i < N. transformWeatherData apiData ! i =
       \<lparr>date = time (daily apiData) ! i,
        minTemp = Some (temperature_2m_min (daily apiData) ! i),
        maxTemp = Some (temperature_2m_max (daily apiData) ! i),
        precipitation = Some (precipitation_sum (daily apiData) ! i)\<rparr>)"
  using assms
  by (simp add: length_transformWeatherData nth_transformWeatherData chart_point_def
      js_index_def)

theorem transform_equal_lengths_witness:
  "transformWeatherData \<lparr>daily = example_daily\<rparr> =
     [\<lparr>date = ''2024-01-01'', minTemp = Some 20, maxTemp = Some 30, precipitation = Some 0\<rparr>,
      \<lparr>date = ''2024-01-02'', minTemp = Some 19, maxTemp = Some 31, precipitation = Some 5\<rparr>]"
proof -
  let ?r = "\<lparr>daily = example_daily\<rparr>"
  have len: "length (time (daily ?r)) = 2"
    "length (temperature_2m_max (daily ?r)) = 2"
    "length (temperature_2m_min (daily ?r)) = 2"
    "length (precipitation_sum (daily ?r)) = 2"
    by (simp_all add: example_daily_def)
  from transform_equal_lengths [OF len]
  have l: "length (transformWeatherData ?r) = 2"
    and n: "\<forall>i<2. transformWeatherData ?r ! i =
       \<lparr>date = time (daily ?r) ! i,
        minTemp = Some (temperature_2m_min (daily ?r) ! i),
        maxTemp = Some (temperature_2m_max (daily ?r) ! i),
        precipitation = Some (precipitation_sum (daily ?r) ! i)\<rparr>"
    by blast+
  from n have "transformWeatherData ?r ! 0 =
      \<lparr>date = ''2024-01-01'', minTemp = Some 20, maxTemp = Some 30, precipitation = Some 0\<rparr>"
    and "transformWeatherData ?r ! 1 =
      \<lparr>date = ''2024-01-02'', minTemp = Some 19, maxTemp = Some 31, precipitation = Some 5\<rparr>"
    by (simp_all add: example_daily_def)
  with l show ?thesis
    by (simp add: list_eq_iff_nth_eq less_Suc_eq numeral_2_eq_2)
qed

text \<open>
  Claim C9. For every payload the number of records is the length of \<open>time\<close> alone.
  Record \<open>i\<close> takes each numeric field from index \<open>i\<close> of its array: entries of a longer
  array past the end of \<open>time\<close> are never read, and a shorter array gives the
  out-of-range read (\<^verbatim>\<open>undefined\<close>, here \<open>None\<close>) for the missing entries. The
  transform is a total function into lists of records: no input makes it fail.
\<close>

theorem transform_length_is_time_length:
  "length (transformWeatherData apiData) = length (time (daily apiData)) \<and>
   (\<forall>i < length (time (daily apiData)).
      date (transformWeatherData apiData ! i) = time (daily apiData) ! i \<and>
      minTemp (transformWeatherData apiData ! i) =
        (if i < length (temperature_2m_min (daily apiData))
         then Some (temperature_2m_min (daily apiData) ! i) else None) \<and>
      maxTemp (transformWeatherData apiData ! i) =
        (if i < length (temperature_2m_max (daily apiData))
         then Some (temperature_2m_max (daily apiData) ! i) else None) \<and>
      precipitation (transformWeatherData apiData ! i) =
        (if i < length (precipitation_sum (daily apiData))
         then Some (precipitation_sum (daily apiData) ! i) else None))"
  by (simp add: length_transformWeatherData nth_transformWeatherData chart_point_def
      js_index_def)

theorem transform_length_is_time_length_witness:
  "transformWeatherData \<lparr>daily = ragged_daily\<rparr> =
     [\<lparr>date = ''2024-01-01'', minTemp = Some 20, maxTemp = Some 30, precipitation = None\<rparr>,
      \<lparr>date = ''2024-01-02'', minTemp = None, maxTemp = Some 31, precipitation = None\<rparr>]"
proof -
  let ?r = "\<lparr>daily = ragged_daily\<rparr>"
  let ?out = "transformWeatherData ?r"
  from transform_length_is_time_length [of ?r]
  have l: "length ?out = 2"
    and n: "\<forall>i<2.
      date (?out ! i) = time ragged_daily ! i \<and>
      minTemp (?out ! i) =
        (if i < length (temperature_2m_min ragged_daily)
         then Some (temperature_2m_min ragged_daily ! i) else None) \<and>
      maxTemp (?out ! i) =
        (if i < length (temperature_2m_max ragged_daily)
         then Some (temperature_2m_max ragged_daily ! i) else None) \<and>
      precipitation (?out ! i) =
        (if i < length (precipitation_sum ragged_daily)
         then Some (precipitation_sum ragged_daily ! i) else None)"
    by (simp_all add: ragged_daily_def)
  from n have "?out ! 0 =
      \<lparr>date = ''2024-01-01'', minTemp = Some 20, maxTemp = Some 30, precipitation = None\<rparr>"
    and "?out ! 1 =
      \<lparr>date = ''2024-01-02'', minTemp = None, maxTemp = Some 31, precipitation = None\<rparr>"
    by (simp_all add: ragged_daily_def ChartDataPoint.equality)
  with l show ?thesis
    by (simp add: list_eq_iff_nth_eq less_Suc_eq numeral_2_eq_2)
qed

section \<open>Properties of the data hook\<close>

lemma run_append: "run (xs @ ys) st = run ys (run xs st)"
  by (simp add: run_def)

lemma run_Cons: "run (x # xs) st = run xs (apply_effect x st)"
  by (simp add: run_def)

lemma run_Nil: "run [] st = st"
  by (simp add: run_def)

lemma run_catch_clause:
  "run (catch_clause err) st =
     st\<lparr>error := Some (case err of ErrorInstance message \<Rightarrow> message
                               | OtherValue \<Rightarrow> ''An unknown error occurred.'')\<rparr>"
  by (cases err) (simp_all add: run_Cons run_Nil)

lemma run_fetchData:
  "run (fetchData N fetch latitude longitude s e) st =
     (case try_block N (fetch (apiUrl N latitude longitude s e)) of
        Inr records \<Rightarrow> st\<lparr>loading := False, error := None, data := Some records\<rparr>
      | Inl err \<Rightarrow>
          st\<lparr>loading := False, data := None,
             error := Some (case err of ErrorInstance message \<Rightarrow> message
                                      | OtherValue \<Rightarrow> ''An unknown error occurred.'')\<rparr>)"
  by (simp add: fetchData_def Let_def run_append run_Cons run_Nil run_catch_clause
      split: sum.split)

lemma fetchData_halves:
  "fetchData N fetch latitude longitude s e =
     fetchData_before_await N latitude longitude s e @
     fetchData_after_await N (fetch (apiUrl N latitude longitude s e))"
  by (simp add: fetchData_def fetchData_before_await_def fetchData_after_await_def Let_def)

lemma run_fetchData_after_await:
  "run (fetchData_after_await N result) mid =
     (case try_block N result of
        Inr records \<Rightarrow> mid\<lparr>data := Some records, loading := False\<rparr>
      | Inl err \<Rightarrow>
          mid\<lparr>error := Some (case err of ErrorInstance message \<Rightarrow> message
                                      | OtherValue \<Rightarrow> ''An unknown error occurred.''),
              loading := False\<rparr>)"
  by (simp add: fetchData_after_await_def run_append run_Cons run_Nil run_catch_clause
      split: sum.split)

text \<open>
  Claim C2, as amended. A call of \<^verbatim>\<open>fetchData\<close> is its part before the \<^verbatim>\<open>await\<close>
  followed by its part after it. When the two run with nothing in between, then after the
  call has settled, whatever the state was before and whatever the network did,
  \<open>loading\<close> is false and exactly one of \<open>data\<close> and \<open>error\<close> is present (not
  \<^verbatim>\<open>null\<close>; the stored array is empty for a payload of no days): when the \<^verbatim>\<open>try\<close>
  block reaches \<^verbatim>\<open>setData\<close> the transformed records are stored and \<open>error\<close> is absent,
  and when it throws, the \<^verbatim>\<open>message\<close> of the thrown \<^verbatim>\<open>Error\<close>, or the fixed string for
  another thrown value, is stored and \<open>data\<close> is absent. When the call settles on any
  other state \<open>mid\<close>, as it does when calls overlap, \<open>loading\<close> is false afterwards
  and the call's own result is stored, the other cell is left as it was; exactly one of
  the two is present if both were absent in \<open>mid\<close>.
\<close>

theorem fetchData_settles:
  "let url = apiUrl N latitude longitude s e;
       outcome = try_block N (fetch url);
       st' = run (fetchData N fetch latitude longitude s e) st;
       mid' = run (fetchData_after_await N (fetch url)) mid
   in fetchData N fetch latitude longitude s e =
        fetchData_before_await N latitude longitude s e @ fetchData_after_await N (fetch url) \<and>
      loading st' = False \<and>
      ((data st' = None) \<noteq> (error st' = None)) \<and>
      (case outcome of
         Inr records \<Rightarrow> data st' = Some records \<and> error st' = None
       | Inl err \<Rightarrow>
           data st' = None \<and>
           error st' = Some (case err of ErrorInstance message \<Rightarrow> message
                                       | OtherValue \<Rightarrow> ''An unknown error occurred.'')) \<and>
      loading mid' = False \<and>
      (case outcome of
         Inr records \<Rightarrow> data mid' = Some records \<and> error mid' = error mid
       | Inl err \<Rightarrow>
           data mid' = data mid \<and>
           error mid' = Some (case err of ErrorInstance message \<Rightarrow> message
                                        | OtherValue \<Rightarrow> ''An unknown error occurred.'')) \<and>
      (data mid = None \<and> error mid = None \<longrightarrow> ((data mid' = None) \<noteq> (error mid' = None)))"
  unfolding Let_def
  by (simp add: fetchData_halves [symmetric] run_fetchData run_fetchData_after_await
      split: sum.split)

theorem fetchData_settles_witness:
  "run (fetchData int_numbers (\<lambda>url. Resolves ok_response) 9 7 ''2024-01-01'' ''2024-01-02'')
     stale_state =
   stale_state\<lparr>loading := False, error := None,
     data := Some
       [\<lparr>date = ''2024-01-01'', minTemp = Some 20, maxTemp = Some 30, precipitation = Some 0\<rparr>,
        \<lparr>date = ''2024-01-02'', minTemp = Some 19, maxTemp = Some 31,
           precipitation = Some 5\<rparr>]\<rparr> \<and>
   data pending_state = None \<and> error pending_state = None \<and>
   data (run (fetchData_after_await int_numbers (Rejects (ErrorInstance ''Failed to fetch'')))
     pending_state) = None \<and>
   error (run (fetchData_after_await int_numbers (Rejects (ErrorInstance ''Failed to fetch'')))
     pending_state) = Some ''Failed to fetch''"
proof -
  let ?fetch = "\<lambda>url :: string. Resolves ok_response"
  let ?down = "\<lambda>url :: string. Rejects (ErrorInstance ''Failed to fetch'') :: int fetch_result"
  let ?st = "run (fetchData int_numbers ?fetch 9 7 ''2024-01-01'' ''2024-01-02'') stale_state"
  let ?mid = "run (fetchData_after_await int_numbers (Rejects (ErrorInstance ''Failed to fetch'')))
    pending_state"
  have t: "try_block int_numbers (?fetch (apiUrl int_numbers 9 7 ''2024-01-01'' ''2024-01-02'')) =
      Inr (transformWeatherData \<lparr>daily = example_daily\<rparr>)"
    by (simp add: try_block_def ok_response_def)
  have r: "transformWeatherData \<lparr>daily = example_daily\<rparr> =
      [\<lparr>date = ''2024-01-01'', minTemp = Some 20, maxTemp = Some 30, precipitation = Some 0\<rparr>,
       \<lparr>date = ''2024-01-02'', minTemp = Some 19, maxTemp = Some 31, precipitation = Some 5\<rparr>]"
    by (simp add: transformWeatherData_eq example_daily_def chart_point_def js_index_def
        upt_conv_Cons)
  from fetchData_settles [where N = int_numbers and fetch = ?fetch and latitude = 9
      and longitude = 7 and s = "''2024-01-01''" and e = "''2024-01-02''"
      and st = stale_state and mid = pending_state, unfolded Let_def,
      THEN conjunct2] t
  have "loading ?st = False" "error ?st = None"
    "data ?st = Some (transformWeatherData \<lparr>daily = example_daily\<rparr>)"
    by simp_all
  moreover have "startDate ?st = startDate stale_state" "endDate ?st = endDate stale_state"
    "dateRangeError ?st = dateRangeError stale_state"
    by (simp_all add: run_fetchData t)
  ultimately have 1: "?st = stale_state\<lparr>loading := False, error := None,
     data := Some
       [\<lparr>date = ''2024-01-01'', minTemp = Some 20, maxTemp = Some 30, precipitation = Some 0\<rparr>,
        \<lparr>date = ''2024-01-02'', minTemp = Some 19, maxTemp = Some 31,
           precipitation = Some 5\<rparr>]\<rparr>"
    by (simp add: r AppState.equality)
  have p: "data pending_state = None" "error pending_state = None"
    by (simp_all add: pending_state_def)
  have d: "try_block int_numbers (?down (apiUrl int_numbers 9 7 ''2024-01-01'' ''2024-01-02'')) =
      Inl (ErrorInstance ''Failed to fetch'')"
    by (simp add: try_block_def)
  from fetchData_settles [where N = int_numbers and fetch = ?down and latitude = 9
      and longitude = 7 and s = "''2024-01-01''" and e = "''2024-01-02''"
      and st = stale_state and mid = pending_state, unfolded Let_def,
      THEN conjunct2] d p
  have 2: "data ?mid = None" "error ?mid = Some ''Failed to fetch''"
    by simp_all
  from 1 2 p show ?thesis by simp
qed

text \<open>
  The claim as stated, for every call, fails when calls overlap: the failure path never
  clears \<open>data\<close> and the success path never clears \<open>error\<close> (both rely on the reset
  before the \<^verbatim>\<open>await\<close>), so after a failed first call and an answered second call have
  both settled, \<open>data\<close> and \<open>error\<close> are both present.
\<close>

theorem overlapping_calls_counterexample:
  "loading (run overlapping_calls stale_state) = False \<and>
   data (run overlapping_calls stale_state) =
     Some
       [\<lparr>date = ''2024-01-01'', minTemp = Some 20, maxTemp = Some 30, precipitation = Some 0\<rparr>,
        \<lparr>date = ''2024-01-02'', minTemp = Some 19, maxTemp = Some 31,
           precipitation = Some 5\<rparr>] \<and>
   error (run overlapping_calls stale_state) = Some ''Failed to fetch''"
proof -
  have r: "transformWeatherData \<lparr>daily = example_daily\<rparr> =
      [\<lparr>date = ''2024-01-01'', minTemp = Some 20, maxTemp = Some 30, precipitation = Some 0\<rparr>,
       \<lparr>date = ''2024-01-02'', minTemp = Some 19, maxTemp = Some 31, precipitation = Some 5\<rparr>]"
    by (simp add: transformWeatherData_eq example_daily_def chart_point_def js_index_def
        upt_conv_Cons)
  show ?thesis
    by (simp add: overlapping_calls_def run_append run_fetchData_after_await try_block_def
        ok_response_def r)
qed


lemma errorMsg_cases:
  "errorMsg N response =
     (case json_errorData response of
        Inl parseError \<Rightarrow> status_message response
      | Inr errorData \<Rightarrow>
          (case reason_property errorData of
             None \<Rightarrow> status_message response
           | Some reason \<Rightarrow>
               (if truthy N reason then
                  (case to_string N reason of
                     None \<Rightarrow> status_message response
                   | Some rendered \<Rightarrow> ''API Error: '' @ rendered)
                else status_message response)))"
proof -
  have "truthy N v" if "reason_property v = Some r" for v r
    using that by (cases v) simp_all
  then show ?thesis
    by (auto simp: errorMsg_def split: sum.split option.split)
qed

text \<open>
  Claim C3, as amended. For a response whose status is not a success, the stored error
  is \<^verbatim>\<open>errorMsg\<close>. It is \<^verbatim>\<open>"API Error: "\<close> followed by the reason when the body parses
  as JSON with a \<^verbatim>\<open>reason\<close> field that is truthy and converts to a string (a non-empty
  string is such a field); it is \<^verbatim>\<open>"Failed to fetch weather data: "\<close> followed by the
  status code, a space and the status text when parsing fails, when the field is absent,
  when it is falsy (the empty string, 0, false, null) or when its conversion throws.
\<close>

theorem http_failure_message:
  assumes "fetch (apiUrl N latitude longitude s e) = Resolves response"
    and "\<not> ok response"
  shows "error (run (fetchData N fetch latitude longitude s e) st) = Some (errorMsg N response) \<and>
    (\<forall>errorData reason rendered.
       json_errorData response = Inr errorData \<and> reason_property errorData = Some reason \<and>
       truthy N reason \<and> to_string N reason = Some rendered
       \<longrightarrow> errorMsg N response = ''API Error: '' @ rendered) \<and>
    (\<forall>errorData reason.
       json_errorData response = Inr errorData \<and>
       reason_property errorData = Some (JString reason) \<and> reason \<noteq> []
       \<longrightarrow> errorMsg N response = ''API Error: '' @ reason) \<and>
    ((\<exists>parseError. json_errorData response = Inl parseError) \<or>
     (\<exists>errorData. json_errorData response = Inr errorData \<and>
        (reason_property errorData = None \<or>
         (\<exists>reason. reason_property errorData = Some reason \<and>
            (to_string N reason = None \<or> \<not> truthy N reason))))
     \<longrightarrow> errorMsg N response =
          ''Failed to fetch weather data: '' @ decimal (status response) @ '' '' @
          statusText response)"
proof -
  have "try_block N (fetch (apiUrl N latitude longitude s e)) =
          Inl (ErrorInstance (errorMsg N response))"
    using assms by (simp add: try_block_def)
  then have 1: "error (run (fetchData N fetch latitude longitude s e) st) =
      Some (errorMsg N response)"
    by (simp add: run_fetchData)
  have 2: "errorMsg N response = ''API Error: '' @ rendered"
    if "json_errorData response = Inr errorData" "reason_property errorData = Some reason"
      "truthy N reason" "to_string N reason = Some rendered" for errorData reason rendered
    using that by (simp add: errorMsg_cases)
  have 3: "errorMsg N response = ''API Error: '' @ rendered"
    if "json_errorData response = Inr errorData"
      "reason_property errorData = Some (JString rendered)" "rendered \<noteq> []"
    for errorData rendered
    using that by (simp add: errorMsg_cases)
  have 4: "errorMsg N response =
      ''Failed to fetch weather data: '' @ decimal (status response) @ '' '' @ statusText response"
    if "(\<exists>parseError. json_errorData response = Inl parseError) \<or>
     (\<exists>errorData. json_errorData response = Inr errorData \<and>
        (reason_property errorData = None \<or>
         (\<exists>reason. reason_property errorData = Some reason \<and>
            (to_string N reason = None \<or> \<not> truthy N reason))))"
    using that by (auto simp: errorMsg_cases status_message_def)
  from 1 2 3 4 show ?thesis by blast
qed

theorem http_failure_message_witness:
  "error (run (fetchData int_numbers
      (\<lambda>url. Resolves (bad_request (JObject [(''reason'', JString ''bad coordinates'')])))
      9 7 ''2024-03-04'' ''2024-03-10'') stale_state) = Some ''API Error: bad coordinates'' \<and>
   error (run (fetchData int_numbers (\<lambda>url. Resolves (bad_request (JObject [])))
      9 7 ''2024-03-04'' ''2024-03-10'') stale_state) =
     Some ''Failed to fetch weather data: 400 Bad Request''"
proof -
  let ?body = "JObject [(''reason'', JString ''bad coordinates'')] :: int json"
  let ?r = "bad_request ?body"
  let ?r' = "bad_request (JObject [])"
  have a: "\<not> ok ?r" "json_errorData ?r = Inr ?body"
    "reason_property ?body = Some (JString ''bad coordinates'')"
    and b: "\<not> ok ?r'" "json_errorData ?r' = Inr (JObject [])"
    "reason_property (JObject [] :: int json) = None" "status ?r' = 400"
    "statusText ?r' = ''Bad Request''"
    by (simp_all add: bad_request_def)
  have d: "decimal 400 = ''400''"
    by (simp add: decimal.simps digit_char_def)
  from http_failure_message [of "\<lambda>url. Resolves ?r" int_numbers 9 7 "''2024-03-04''"
      "''2024-03-10''" ?r stale_state] a
  have 1: "error (run (fetchData int_numbers (\<lambda>url. Resolves ?r) 9 7 ''2024-03-04''
      ''2024-03-10'') stale_state) = Some ''API Error: bad coordinates''"
    by simp
  from http_failure_message [of "\<lambda>url. Resolves ?r'" int_numbers 9 7 "''2024-03-04''"
      "''2024-03-10''" ?r' stale_state] b d
  have 2: "error (run (fetchData int_numbers (\<lambda>url. Resolves ?r') 9 7 ''2024-03-04''
      ''2024-03-10'') stale_state) = Some ''Failed to fetch weather data: 400 Bad Request''"
    by simp
  from 1 2 show ?thesis by simp
qed

text \<open>
  The claim as stated fails for a falsy reason: the body \<^verbatim>\<open>{"reason": ""}\<close> parses and
  contains the field, yet the stored message is the status line, because line 122 tests
  the field for truthiness, not for presence.
\<close>

theorem empty_reason_counterexample:
  "\<not> ok (bad_request (JObject [(''reason'', JString '''')])) \<and>
   json_errorData (bad_request (JObject [(''reason'', JString '''')])) =
     Inr (JObject [(''reason'', JString '''')]) \<and>
   reason_property (JObject [(''reason'', JString '''')] :: int json) = Some (JString '''') \<and>
   error (run (fetchData int_numbers
      (\<lambda>url. Resolves (bad_request (JObject [(''reason'', JString '''')])))
      9 7 ''2024-03-04'' ''2024-03-10'') stale_state) =
     Some ''Failed to fetch weather data: 400 Bad Request'' \<and>
   error (run (fetchData int_numbers
      (\<lambda>url. Resolves (bad_request (JObject [(''reason'', JString '''')])))
      9 7 ''2024-03-04'' ''2024-03-10'') stale_state) \<noteq> Some (''API Error: '' @ '''')"
  by (simp add: run_fetchData try_block_def errorMsg_def status_message_def bad_request_def
      decimal.simps digit_char_def)

text \<open>
  Claim C4. When the request itself fails (the promise of \<^verbatim>\<open>fetch\<close> rejects) or the
  body of a success response does not parse (\<^verbatim>\<open>response.json()\<close> rejects), the stored
  error is the \<^verbatim>\<open>message\<close> of the thrown \<^verbatim>\<open>Error\<close>, or the fixed string
  \<^verbatim>\<open>"An unknown error occurred."\<close> when the thrown value is not an \<^verbatim>\<open>Error\<close>. The
  fault ends in the state: \<open>data\<close> is absent, and the call runs to its last effect, the
  \<^verbatim>\<open>setLoading(false)\<close> of the \<^verbatim>\<open>finally\<close> clause.
\<close>

theorem transport_failure_reported:
  assumes "fetch (apiUrl N latitude longitude s e) = Rejects err \<or>
     (\<exists>response. fetch (apiUrl N latitude longitude s e) = Resolves response \<and>
        ok response \<and> json_apiResponse response = Inl err)"
  shows "let effects = fetchData N fetch latitude longitude s e; st' = run effects st in
     error st' = Some (case err of ErrorInstance message \<Rightarrow> message
                                 | OtherValue \<Rightarrow> ''An unknown error occurred.'') \<and>
     data st' = None \<and> loading st' = False \<and> last effects = SetLoading False"
proof -
  from assms have "try_block N (fetch (apiUrl N latitude longitude s e)) = Inl err"
    by (auto simp: try_block_def)
  then show ?thesis
    by (simp add: run_fetchData Let_def) (simp add: fetchData_def Let_def)
qed

theorem transport_failure_reported_witness:
  "run (fetchData int_numbers network_down 9 7 ''2024-03-04'' ''2024-03-10'') stale_state =
     stale_state\<lparr>data := None, loading := False, error := Some ''Failed to fetch''\<rparr>"
proof -
  have "network_down (apiUrl int_numbers 9 7 ''2024-03-04'' ''2024-03-10'') =
      Rejects (ErrorInstance ''Failed to fetch'')"
    by (simp add: network_down_def)
  then have "network_down (apiUrl int_numbers 9 7 ''2024-03-04'' ''2024-03-10'') =
      Rejects (ErrorInstance ''Failed to fetch'') \<or>
     (\<exists>response. network_down (apiUrl int_numbers 9 7 ''2024-03-04'' ''2024-03-10'') =
        Resolves response \<and> ok response \<and>
        json_apiResponse response = Inl (ErrorInstance ''Failed to fetch''))"
    by simp
  from transport_failure_reported [of network_down int_numbers 9 7 "''2024-03-04''"
      "''2024-03-10''" "ErrorInstance ''Failed to fetch''" stale_state] this
  have "error (run (fetchData int_numbers network_down 9 7 ''2024-03-04'' ''2024-03-10'')
      stale_state) = Some ''Failed to fetch''"
    by (simp add: Let_def)
  then show ?thesis
    by (simp add: run_fetchData try_block_def network_down_def stale_state_def)
qed

section \<open>Properties of the date utilities\<close>

subsection \<open>Day numbers follow the calendar\<close>

text \<open>
  A later date of the calendar has a larger day number: within a year counted from March
  the day of the year grows with month and day, and a year counted from March has 365
  days, or 366 when the civil year of its February is a leap year.
\<close>

lemma days_from_civil_split:
  "days_from_civil y m d = leap_days (march_year y m) + day_of_year m d - 719468"
  by (simp add: days_from_civil_def leap_days_def day_of_year_def march_year_def Let_def)



lemma div_succ:
  fixes y k :: int
  assumes "0 < k"
  shows "(y + 1) div k = y div k + (if (y + 1) mod k = 0 then 1 else 0)"
proof (cases "(y + 1) mod k = 0")
  case True
  have "y + 1 = k * ((y + 1) div k) + (y + 1) mod k" by simp
  with True have "y = k * ((y + 1) div k - 1) + (k - 1)"
    by (simp add: algebra_simps)
  with assms have "y div k = (y + 1) div k - 1"
    by (intro int_div_pos_eq [where r = "k - 1"]) simp_all
  with True show ?thesis by simp
next
  case False
  with assms have r: "1 \<le> (y + 1) mod k" "(y + 1) mod k < k"
    using pos_mod_sign [of k "y + 1"] pos_mod_bound [of k "y + 1"] by linarith+
  have "y + 1 = k * ((y + 1) div k) + (y + 1) mod k" by simp
  then have "y = k * ((y + 1) div k) + ((y + 1) mod k - 1)"
    by linarith
  with r have "y div k = (y + 1) div k"
    by (intro int_div_pos_eq [where r = "(y + 1) mod k - 1"]) simp_all
  with False show ?thesis by simp
qed

lemma leap_days_step:
  "leap_days (y + 1) = leap_days y + 365 + (if is_leap_year (y + 1) then 1 else 0)"
proof -
  define a4 a100 a400 where "a4 = y div 4" and "a100 = y div 100" and "a400 = y div 400"
  define p4 p100 p400 where "p4 \<longleftrightarrow> (y + 1) mod 4 = 0"
    and "p100 \<longleftrightarrow> (y + 1) mod 100 = 0" and "p400 \<longleftrightarrow> (y + 1) mod 400 = 0"
  have s4: "(y + 1) div 4 = a4 + (if p4 then 1 else 0)"
    unfolding a4_def p4_def by (rule div_succ) simp
  have s100: "(y + 1) div 100 = a100 + (if p100 then 1 else 0)"
    unfolding a100_def p100_def by (rule div_succ) simp
  have s400: "(y + 1) div 400 = a400 + (if p400 then 1 else 0)"
    unfolding a400_def p400_def by (rule div_succ) simp
  have "(4::int) dvd 100" and "(100::int) dvd 400" by simp_all
  then have imp: "p100 \<Longrightarrow> p4" "p400 \<Longrightarrow> p100"
    unfolding p4_def p100_def p400_def mod_eq_0_iff_dvd by (blast intro: dvd_trans)+
  have l: "is_leap_year (y + 1) \<longleftrightarrow> p4 \<and> (p400 \<or> \<not> p100)"
    by (simp only: is_leap_year_def p4_def p100_def p400_def)
  have "leap_days (y + 1) =
      365 * (y + 1) + (a4 + (if p4 then 1 else 0)) - (a100 + (if p100 then 1 else 0)) +
      (a400 + (if p400 then 1 else 0))"
    by (simp only: leap_days_def s4 s100 s400)
  moreover have "leap_days y = 365 * y + a4 - a100 + a400"
    by (simp only: leap_days_def a4_def a100_def a400_def)
  ultimately show ?thesis
    using imp unfolding l by (cases p4; cases p100; cases p400; simp)
qed

lemma leap_days_mono: "a \<le> b \<Longrightarrow> leap_days a \<le> leap_days b"
proof (induction b rule: int_ge_induct)
  case base
  show ?case by simp
next
  case (step i)
  then show ?case using leap_days_step [of i] by (simp split: if_splits)
qed

lemma month_cases:
  assumes "1 \<le> m" "m \<le> 12"
  obtains "m = 1" | "m = 2" | "m = 3" | "m = 4" | "m = 5" | "m = 6"
    | "m = 7" | "m = 8" | "m = 9" | "m = 10" | "m = 11" | "m = (12::int)"
proof -
  from assms have "m = 1 \<or> m = 2 \<or> m = 3 \<or> m = 4 \<or> m = 5 \<or> m = 6 \<or>
      m = 7 \<or> m = 8 \<or> m = 9 \<or> m = 10 \<or> m = 11 \<or> m = 12"
    by presburger
  then show thesis using that by blast
qed

lemma day_of_year_bounds:
  assumes "valid_date (y, m, d)"
  shows "0 \<le> day_of_year m d"
    and "leap_days (march_year y m) + day_of_year m d < leap_days (march_year y m + 1)"
proof -
  from assms have m: "1 \<le> m" "m \<le> 12" and d: "1 \<le> d" "d \<le> days_in_month y m"
    by simp_all
  from m show "0 \<le> day_of_year m d"
    by (rule month_cases) (use d in \<open>simp_all add: day_of_year_def\<close>)
  from m show "leap_days (march_year y m) + day_of_year m d < leap_days (march_year y m + 1)"
  proof (rule month_cases)
    assume "m = 2"
    with d leap_days_step [of "y - 1"] show ?thesis
      by (simp add: day_of_year_def march_year_def days_in_month_def split: if_splits)
  qed (use d leap_days_step [of "march_year y m"] in
      \<open>simp_all add: day_of_year_def march_year_def days_in_month_def split: if_splits\<close>)
qed

lemma day_of_year_less:
  assumes "valid_date (y1, m1, d1)" "valid_date (y2, m2, d2)"
    and "march_year y1 m1 = march_year y2 m2"
    and "date_less (y1, m1, d1) (y2, m2, d2)"
  shows "day_of_year m1 d1 < day_of_year m2 d2"
proof -
  from assms(1) have m1: "1 \<le> m1" "m1 \<le> 12" by simp_all
  from assms(2) have m2: "1 \<le> m2" "m2 \<le> 12" by simp_all
  from m1 show ?thesis
  proof (rule month_cases)
  qed (rule month_cases [OF m2];
      use assms in \<open>simp add: day_of_year_def march_year_def days_in_month_def
        split: if_splits\<close>)+
qed

lemma march_year_mono:
  assumes "valid_date (y1, m1, d1)" "valid_date (y2, m2, d2)"
    and "date_less (y1, m1, d1) (y2, m2, d2)"
  shows "march_year y1 m1 \<le> march_year y2 m2"
  using assms by (auto simp: march_year_def)

lemma days_from_civil_strict_mono:
  assumes v1: "valid_date (y1, m1, d1)" and v2: "valid_date (y2, m2, d2)"
    and less: "date_less (y1, m1, d1) (y2, m2, d2)"
  shows "days_from_civil y1 m1 d1 < days_from_civil y2 m2 d2"
proof (cases "march_year y1 m1 = march_year y2 m2")
  case True
  with day_of_year_less [OF v1 v2 True less] show ?thesis
    by (simp add: days_from_civil_split)
next
  case False
  with march_year_mono [OF v1 v2 less] have "march_year y1 m1 + 1 \<le> march_year y2 m2"
    by simp
  then have "leap_days (march_year y1 m1 + 1) \<le> leap_days (march_year y2 m2)"
    by (rule leap_days_mono)
  with day_of_year_bounds(2) [OF v1] day_of_year_bounds(1) [OF v2] show ?thesis
    by (simp add: days_from_civil_split)
qed

lemma date_less_trichotomy:
  "date_less a b \<or> a = b \<or> date_less b a"
  by (cases a; cases b) auto

subsection \<open>The date-only form reads back what was written\<close>

lemma digit_value_digit_char:
  assumes "d < 10"
  shows "digit_value (digit_char d) = Some (int d)"
proof -
  from assms have "d = 0 \<or> d = 1 \<or> d = 2 \<or> d = 3 \<or> d = 4 \<or> d = 5 \<or> d = 6 \<or>
      d = 7 \<or> d = 8 \<or> d = 9"
    by presburger
  then show ?thesis
    by (elim disjE) (simp_all add: digit_char_def digit_value_def)
qed

lemma digit_value_of_int:
  assumes "0 \<le> k" "k < 10"
  shows "digit_value (digit_char (nat k)) = Some k"
  using assms digit_value_digit_char [of "nat k"] by simp

lemma length_pad2 [simp]: "length (pad2 n) = 2"
  by (simp add: pad2_def)

lemma length_pad4 [simp]: "length (pad4 n) = 4"
  by (simp add: pad4_def pad3_def pad2_def)

lemma digits_value_pad2:
  assumes "0 \<le> n" "n < 100"
  shows "digits_value 0 (pad2 n) = Some n"
proof -
  define a b where "a = n div 10 mod 10" and "b = n mod 10"
  from assms have n: "n = 10 * a + b" and r: "0 \<le> a" "a < 10" "0 \<le> b" "b < 10"
    unfolding a_def b_def by simp_all
  have "pad2 n = [digit_char (nat a), digit_char (nat b)]"
    by (simp add: pad2_def a_def b_def)
  with r show ?thesis
    by (simp add: digit_value_of_int n)
qed

lemma div_100: "(n::int) div 100 = n div 10 div 10"
  using zdiv_zmult2_eq [of 10 n 10] by simp

lemma div_1000: "(n::int) div 1000 = n div 10 div 10 div 10"
  using zdiv_zmult2_eq [of 10 n 100] div_100 [of "n div 10"]
  by (simp add: zdiv_zmult2_eq [of 10 n 10, symmetric])

lemma four_digits:
  fixes n :: int
  assumes "0 \<le> n" "n < 10000"
  shows "n = 1000 * (n div 1000 mod 10) + 100 * (n div 100 mod 10) + 10 * (n div 10 mod 10) +
    n mod 10"
proof -
  define q1 q2 q3 where "q1 = n div 10" and "q2 = q1 div 10" and "q3 = q2 div 10"
  have e: "n div 100 = q2" "n div 1000 = q3" "n div 10 = q1"
    by (simp_all only: div_100 div_1000 q1_def q2_def q3_def)
  have 1: "n = 10 * q1 + n mod 10" unfolding q1_def by simp
  have 2: "q1 = 10 * q2 + q1 mod 10" unfolding q2_def by simp
  have 3: "q2 = 10 * q3 + q2 mod 10" unfolding q3_def by simp
  from assms have "0 \<le> q3" "q3 < 10"
    unfolding e(2) [symmetric] by simp_all
  then have 4: "q3 mod 10 = q3" by simp
  show ?thesis
    unfolding e 4 using 1 2 3 by linarith
qed

lemma digits_value_pad4:
  assumes "0 \<le> n" "n < 10000"
  shows "digits_value 0 (pad4 n) = Some n"
proof -
  define a b c d where "a = n div 1000 mod 10" and "b = n div 100 mod 10"
    and "c = n div 10 mod 10" and "d = n mod 10"
  have n: "n = 1000 * a + 100 * b + 10 * c + d"
    unfolding a_def b_def c_def d_def using assms by (rule four_digits)
  have r: "0 \<le> a" "a < 10" "0 \<le> b" "b < 10" "0 \<le> c" "c < 10" "0 \<le> d" "d < 10"
    unfolding a_def b_def c_def d_def by simp_all
  have "pad4 n = [digit_char (nat a), digit_char (nat b), digit_char (nat c), digit_char (nat d)]"
    by (simp add: pad4_def pad3_def pad2_def a_def b_def c_def d_def)
  with r show ?thesis
    by (simp add: digit_value_of_int n)
qed

lemma parse_iso_date_iso_date:
  assumes "0 \<le> y" "y \<le> 9999" "valid_date (y, m, d)"
  shows "parse_iso_date (iso_date (y, m, d)) = Some (y, m, d)"
proof -
  from assms(3) have m: "0 \<le> m" "m < 100" and v: "1 \<le> m" "m \<le> 12" "1 \<le> d"
    "d \<le> days_in_month y m"
    by simp_all
  from v have d: "0 \<le> d" "d < 100"
    by (simp_all add: days_in_month_def split: if_splits)
  let ?s = "pad4 y @ ''-'' @ pad2 m @ ''-'' @ pad2 d"
  have s: "iso_date (y, m, d) = ?s"
    using assms(1,2) by (simp add: iso_date_def iso_year_def)
  have "length ?s = 10" "?s ! 4 = CHR ''-''" "?s ! 7 = CHR ''-''"
    "take 4 ?s = pad4 y" "take 2 (drop 5 ?s) = pad2 m" "drop 8 ?s = pad2 d"
    by (simp_all add: nth_append)
  with assms(1,2) m d v show ?thesis
    unfolding s by (simp add: parse_iso_date_def digits_value_pad4 digits_value_pad2)
qed

subsection \<open>The date of a day number\<close>

text \<open>
  \<open>civil_from_days\<close> is the inverse of \<open>days_from_civil\<close>: it returns a date of the
  calendar, and that date has the given day number.
\<close>

lemma div_mod_decomp:
  fixes a b :: int
  assumes "0 < b" "0 \<le> a"
  shows "a = b * (a div b) + a mod b" "0 \<le> a mod b" "a mod b < b" "0 \<le> a div b"
  using assms by (simp_all add: pos_imp_zdiv_nonneg_iff)

lemma civil_from_days_parts:
  fixes z :: int
  assumes doe_def: "doe = (z + 719468) mod 146097"
    and cent_def: "cent = min (doe div 36524) 3"
    and doc_def: "doc = doe - 36524 * cent"
    and quad_def: "quad = doc div 1461"
    and doq_def: "doq = doc mod 1461"
    and yoq_def: "yoq = min (doq div 365) 3"
    and doy_def: "doy = doq - 365 * yoq"
  shows "0 \<le> cent" "cent \<le> 3" "0 \<le> quad" "quad \<le> 24" "0 \<le> yoq" "yoq \<le> 3"
    "0 \<le> doy" "doy \<le> 365" "doe = 36524 * cent + 1461 * quad + 365 * yoq + doy"
proof -
  have doe: "0 \<le> doe" "doe < 146097"
    unfolding doe_def by simp_all
  define k s where "k = doe div 36524" and "s = doe mod 36524"
  have ks: "doe = 36524 * k + s" "0 \<le> s" "s < 36524" "0 \<le> k"
    unfolding k_def s_def using div_mod_decomp [of 36524 doe] doe by simp_all
  have c: "cent = min k 3"
    unfolding cent_def k_def ..
  from ks doe show cent: "0 \<le> cent" "cent \<le> 3"
    unfolding c by simp_all
  from ks doe have doc: "0 \<le> doc" "doc \<le> 36524"
    unfolding doc_def c min_def by (simp_all split: if_splits)
  define t where "t = doc mod 1461"
  have qt: "doc = 1461 * quad + t" "0 \<le> t" "t < 1461" "0 \<le> quad"
    unfolding quad_def t_def using div_mod_decomp [of 1461 doc] doc by simp_all
  with doc show "0 \<le> quad" "quad \<le> 24"
    by simp_all
  have doq: "doq = t"
    unfolding doq_def t_def ..
  define j u where "j = t div 365" and "u = t mod 365"
  have ju: "t = 365 * j + u" "0 \<le> u" "u < 365" "0 \<le> j"
    unfolding j_def u_def using div_mod_decomp [of 365 t] qt by simp_all
  have y: "yoq = min j 3"
    unfolding yoq_def doq j_def ..
  from ju show "0 \<le> yoq" "yoq \<le> 3"
    unfolding y by simp_all
  from ju qt show "0 \<le> doy" "doy \<le> 365"
    unfolding doy_def doq y min_def by (simp_all split: if_splits)
  from qt show "doe = 36524 * cent + 1461 * quad + 365 * yoq + doy"
    unfolding doy_def doc_def doq by simp
qed

lemma days_from_civil_civil_from_days:
  "(case civil_from_days z of (y, m, d) \<Rightarrow> days_from_civil y m d) = z"
proof -
  define era doe where "era = (z + 719468) div 146097" and "doe = (z + 719468) mod 146097"
  define cent where "cent = min (doe div 36524) 3"
  define doc where "doc = doe - 36524 * cent"
  define quad doq where "quad = doc div 1461" and "doq = doc mod 1461"
  define yoq where "yoq = min (doq div 365) 3"
  define doy where "doy = doq - 365 * yoq"
  define yoe where "yoe = 100 * cent + 4 * quad + yoq"
  define mp where "mp = (5 * doy + 2) div 153"
  define d where "d = doy - (153 * mp + 2) div 5 + 1"
  define m where "m = (if mp < 10 then mp + 3 else mp - 9)"
  define y where "y = yoe + 400 * era"
  note p = civil_from_days_parts [OF doe_def cent_def doc_def quad_def doq_def yoq_def doy_def]
  have cfd: "civil_from_days z = (if m \<le> 2 then y + 1 else y, m, d)"
    unfolding civil_from_days_def Let_def
    by (simp only: era_def doe_def cent_def doc_def quad_def doq_def yoq_def doy_def yoe_def
        mp_def d_def m_def y_def)
  have z: "z + 719468 = 146097 * era + doe"
    unfolding era_def doe_def by simp
  from p have mp: "0 \<le> mp" "mp \<le> 11"
    unfolding mp_def by linarith+
  then have m: "(m + 9) mod 12 = mp" "(if m \<le> 2 then (if m \<le> 2 then y + 1 else y) - 1
      else (if m \<le> 2 then y + 1 else y)) = y"
    unfolding m_def by (simp_all split: if_splits)
  have d4: "y div 4 = 100 * era + 25 * cent + quad"
    using p by (intro int_div_pos_eq [where r = yoq]) (simp_all add: y_def yoe_def)
  have d100: "y div 100 = 4 * era + cent"
    using p by (intro int_div_pos_eq [where r = "4 * quad + yoq"]) (simp_all add: y_def yoe_def)
  have d400: "y div 400 = era"
    using p by (intro int_div_pos_eq [where r = yoe]) (simp_all add: y_def yoe_def)
  have "days_from_civil (if m \<le> 2 then y + 1 else y) m d =
      365 * y + y div 4 - y div 100 + y div 400 + (153 * mp + 2) div 5 + d - 1 - 719468"
    unfolding days_from_civil_def Let_def m ..
  also have "\<dots> = z"
    unfolding d4 d100 d400 d_def using z p(9) by (simp add: y_def yoe_def)
  finally show ?thesis
    by (simp add: cfd)
qed


lemma civil_from_days_leap_day:
  fixes z :: int
  assumes doe_def: "doe = (z + 719468) mod 146097"
    and cent_def: "cent = min (doe div 36524) 3"
    and doc_def: "doc = doe - 36524 * cent"
    and quad_def: "quad = doc div 1461"
    and doq_def: "doq = doc mod 1461"
    and yoq_def: "yoq = min (doq div 365) 3"
    and doy_def: "doy = doq - 365 * yoq"
    and last: "doy = 365"
  shows "is_leap_year (100 * cent + 4 * quad + yoq + 400 * era + 1)"
proof -
  note p = civil_from_days_parts [OF doe_def cent_def doc_def quad_def doq_def yoq_def doy_def]
  have doe: "0 \<le> doe" "doe < 146097"
    unfolding doe_def by simp_all
  have doq: "0 \<le> doq" "doq < 1461" "doc = 1461 * quad + doq"
    unfolding doq_def quad_def by simp_all
  have yoq: "yoq = 3"
  proof (rule ccontr)
    assume "yoq \<noteq> 3"
    with p have "yoq < 3" by simp
    then have "yoq = doq div 365"
      unfolding yoq_def by (simp add: min_def split: if_splits)
    moreover from last have "doq = 365 * (yoq + 1)"
      unfolding doy_def by simp
    ultimately show False by simp
  qed
  with last have doq': "doq = 1460"
    unfolding doy_def by simp
  let ?y = "100 * cent + 4 * quad + yoq + 400 * era + 1"
  have y: "?y = 4 * (25 * cent + quad + 1 + 100 * era)"
    using yoq by simp
  then have m4: "?y mod 4 = 0"
    by (simp only: mod_mult_self1_is_0)
  show ?thesis
  proof (cases "quad = 24")
    case True
    with doq doq' have "doc = 36524" by simp
    with doe p(1,2) have "cent = 3"
      unfolding doc_def cent_def by (simp add: min_def split: if_splits)
    with True yoq have "?y = 400 * (era + 1)" by simp
    then have "?y mod 400 = 0"
      by (simp only: mod_mult_self1_is_0)
    with m4 show ?thesis
      unfolding is_leap_year_def by blast
  next
    case False
    with p have q: "0 \<le> quad" "quad < 24" by simp_all
    have "?y = 100 * (cent + 4 * era) + 4 * (quad + 1)"
      using yoq by simp
    with q have "?y mod 100 = 4 * (quad + 1)"
      by (intro int_mod_pos_eq [where q = "cent + 4 * era"]) simp_all
    with q have "?y mod 100 \<noteq> 0" by simp
    with m4 show ?thesis
      unfolding is_leap_year_def by blast
  qed
qed

lemma civil_from_days_valid: "valid_date (civil_from_days z)"
proof -
  define era doe where "era = (z + 719468) div 146097" and "doe = (z + 719468) mod 146097"
  define cent where "cent = min (doe div 36524) 3"
  define doc where "doc = doe - 36524 * cent"
  define quad doq where "quad = doc div 1461" and "doq = doc mod 1461"
  define yoq where "yoq = min (doq div 365) 3"
  define doy where "doy = doq - 365 * yoq"
  define yoe where "yoe = 100 * cent + 4 * quad + yoq"
  define mp where "mp = (5 * doy + 2) div 153"
  define d where "d = doy - (153 * mp + 2) div 5 + 1"
  define m where "m = (if mp < 10 then mp + 3 else mp - 9)"
  define y where "y = yoe + 400 * era"
  note p = civil_from_days_parts [OF doe_def cent_def doc_def quad_def doq_def yoq_def doy_def]
  have cfd: "civil_from_days z = (if m \<le> 2 then y + 1 else y, m, d)"
    unfolding civil_from_days_def Let_def
    by (simp only: era_def doe_def cent_def doc_def quad_def doq_def yoq_def doy_def yoe_def
        mp_def d_def m_def y_def)
  have leap: "is_leap_year (y + 1)" if "doy = 365"
    using civil_from_days_leap_day [OF doe_def cent_def doc_def quad_def doq_def yoq_def doy_def
        that, of era]
    by (simp add: y_def yoe_def)
  from p have mp: "153 * mp \<le> 5 * doy + 2" "5 * doy + 2 < 153 * mp + 153" "0 \<le> mp" "mp \<le> 11"
    unfolding mp_def by linarith+
  from mp(3,4) have "mp = 0 \<or> mp = 1 \<or> mp = 2 \<or> mp = 3 \<or> mp = 4 \<or> mp = 5 \<or> mp = 6 \<or>
      mp = 7 \<or> mp = 8 \<or> mp = 9 \<or> mp = 10 \<or> mp = 11"
    by presburger
  then have "1 \<le> m \<and> m \<le> 12 \<and> 1 \<le> d \<and> d \<le> days_in_month (if m \<le> 2 then y + 1 else y) m"
  proof (elim disjE)
    assume "mp = 11"
    with mp p leap show ?thesis
      by (cases "doy = 365") (simp_all add: m_def d_def days_in_month_def)
  qed (use mp in \<open>simp_all add: m_def d_def days_in_month_def\<close>)
  then show ?thesis
    by (simp add: cfd)
qed

lemma civil_from_days_days_from_civil:
  assumes "valid_date (y, m, d)"
  shows "civil_from_days (days_from_civil y m d) = (y, m, d)"
proof -
  obtain y' m' d' where c: "civil_from_days (days_from_civil y m d) = (y', m', d')"
    by (cases "civil_from_days (days_from_civil y m d)") blast
  from civil_from_days_valid [of "days_from_civil y m d"] have v: "valid_date (y', m', d')"
    by (simp add: c)
  from days_from_civil_civil_from_days [of "days_from_civil y m d"]
  have e: "days_from_civil y' m' d' = days_from_civil y m d"
    by (simp add: c)
  from date_less_trichotomy [of "(y', m', d')" "(y, m, d)"] have "(y', m', d') = (y, m, d)"
  proof (elim disjE)
    assume "date_less (y', m', d') (y, m, d)"
    from days_from_civil_strict_mono [OF v assms this] e show ?thesis by simp
  next
    assume "date_less (y, m, d) (y', m', d')"
    from days_from_civil_strict_mono [OF assms v this] e show ?thesis by simp
  qed
  with c show ?thesis by simp
qed

subsection \<open>Moving a time value by whole days\<close>

lemma days_from_civil_day:
  "days_from_civil y m d = days_from_civil y m 1 + d - 1"
  by (simp add: days_from_civil_def Let_def)

lemma MakeDay_civil_from_days:
  assumes "civil_from_days z = (y, m, d)"
  shows "MakeDay y m dt = z + dt - d"
proof -
  from days_from_civil_civil_from_days [of z] assms have "days_from_civil y m d = z"
    by simp
  with days_from_civil_day [of y m d] show ?thesis
    by (simp add: MakeDay_def)
qed

lemma Day_shift: "Day (t - n * msPerDay) = Day t - n"
  by (simp add: Day_def msPerDay_def)

lemma MakeDate_Day: "MakeDate (Day t - n) (TimeWithinDay t) = t - n * msPerDay"
proof -
  have "Day t * msPerDay + TimeWithinDay t = t"
    by (simp add: Day_def TimeWithinDay_def)
  then show ?thesis
    by (simp add: MakeDate_def algebra_simps)
qed

lemma digit_char_not_T:
  assumes "k < 10"
  shows "digit_char k \<noteq> CHR ''T''"
proof -
  from assms have "k = 0 \<or> k = 1 \<or> k = 2 \<or> k = 3 \<or> k = 4 \<or> k = 5 \<or> k = 6 \<or>
      k = 7 \<or> k = 8 \<or> k = 9"
    by presburger
  then show ?thesis
    by (elim disjE) (simp_all add: digit_char_def)
qed

lemma digit_of_mod_not_T: "CHR ''T'' \<noteq> digit_char (nat (n mod 10))"
proof -
  have "n mod 10 < 10" by simp
  then have "nat (n mod 10) < 10" by linarith
  from digit_char_not_T [OF this] show ?thesis by simp
qed

lemma pad2_no_T: "CHR ''T'' \<notin> set (pad2 n)"
  by (simp add: pad2_def digit_of_mod_not_T)

lemma pad4_no_T: "CHR ''T'' \<notin> set (pad4 n)"
  using pad2_no_T [of n] by (simp add: pad4_def pad3_def digit_of_mod_not_T)

lemma pad6_no_T: "CHR ''T'' \<notin> set (pad6 n)"
  using pad4_no_T [of n] by (simp add: pad6_def digit_of_mod_not_T)

lemma iso_date_no_T: "CHR ''T'' \<notin> set (iso_date ymd)"
  by (cases ymd) (simp add: iso_date_def iso_year_def pad2_no_T pad4_no_T pad6_no_T)

lemma takeWhile_until: "c \<notin> set xs \<Longrightarrow> takeWhile (\<lambda>x. x \<noteq> c) (xs @ c # ys) = xs"
  by (induction xs) auto

lemma split_T_first_toISOString:
  "map_sum id split_T_first (toISOString (TimeValue t)) = Inr (iso_date (civil_from_days (Day t)))"
  by (simp add: split_T_first_def Let_def takeWhile_until [OF iso_date_no_T])

subsection \<open>The range check\<close>

lemma isValidDateRange_TimeValue:
  "isValidDateRange engine s e \<longleftrightarrow>
     (\<exists>a b. Date_parse engine s = TimeValue a \<and> Date_parse engine e = TimeValue b \<and> a \<le> b)"
  by (cases "Date_parse engine s"; cases "Date_parse engine e")
    (simp_all add: isValidDateRange_def)

lemma days_from_civil_le_iff:
  assumes "valid_date (y1, m1, d1)" "valid_date (y2, m2, d2)"
  shows "days_from_civil y1 m1 d1 \<le> days_from_civil y2 m2 d2 \<longleftrightarrow>
    \<not> date_less (y2, m2, d2) (y1, m1, d1)"
proof
  assume le: "days_from_civil y1 m1 d1 \<le> days_from_civil y2 m2 d2"
  show "\<not> date_less (y2, m2, d2) (y1, m1, d1)"
  proof
    assume "date_less (y2, m2, d2) (y1, m1, d1)"
    from days_from_civil_strict_mono [OF assms(2) assms(1) this] le show False by simp
  qed
next
  assume n: "\<not> date_less (y2, m2, d2) (y1, m1, d1)"
  from date_less_trichotomy [of "(y1, m1, d1)" "(y2, m2, d2)"] n
  consider "date_less (y1, m1, d1) (y2, m2, d2)" | "(y1, m1, d1) = (y2, m2, d2)"
    by blast
  then show "days_from_civil y1 m1 d1 \<le> days_from_civil y2 m2 d2"
  proof cases
    case 1
    from days_from_civil_strict_mono [OF assms 1] show ?thesis by simp
  next
    case 2
    then show ?thesis by simp
  qed
qed

lemma Date_parse_iso_date:
  assumes "four_digit_year_date (y, m, d)"
  shows "Date_parse engine (iso_date (y, m, d)) = TimeValue (days_from_civil y m d * msPerDay)"
  using assms by (simp add: Date_parse_def parse_iso_date_iso_date)

lemma isValidDateRange_iso_date:
  assumes "four_digit_year_date a" "four_digit_year_date b"
  shows "isValidDateRange engine (iso_date a) (iso_date b) \<longleftrightarrow> \<not> date_less b a"
proof -
  obtain y1 m1 d1 y2 m2 d2 where ab: "a = (y1, m1, d1)" "b = (y2, m2, d2)"
    by (cases a; cases b) blast
  from assms have v: "valid_date (y1, m1, d1)" "valid_date (y2, m2, d2)"
    unfolding ab by simp_all
  from assms show ?thesis
    unfolding ab
    by (simp only: isValidDateRange_def Date_parse_iso_date js_le.simps
        days_from_civil_le_iff [OF v, symmetric])
      (simp add: msPerDay_def)
qed

text \<open>
  Claim C5. \<^verbatim>\<open>isValidDateRange\<close> is true exactly when both strings parse to a time value
  and the start is not after the end. A date that parses makes a valid range with itself,
  and a start strictly after the end is invalid. For the dates a date input produces
  (\<^verbatim>\<open>YYYY-MM-DD\<close>), the comparison of the time values is the order of the calendar.
\<close>

theorem isValidDateRange_iff:
  "(isValidDateRange engine s e \<longleftrightarrow>
      (\<exists>a b. Date_parse engine s = TimeValue a \<and> Date_parse engine e = TimeValue b \<and> a \<le> b)) \<and>
   (\<forall>a. Date_parse engine s = TimeValue a \<longrightarrow> isValidDateRange engine s s) \<and>
   (\<forall>a b. Date_parse engine s = TimeValue a \<and> Date_parse engine e = TimeValue b \<and> b < a
      \<longrightarrow> \<not> isValidDateRange engine s e) \<and>
   (four_digit_year_date d1 \<and> four_digit_year_date d2 \<longrightarrow>
      (isValidDateRange engine (iso_date d1) (iso_date d2) \<longleftrightarrow> \<not> date_less d2 d1))"
proof -
  have "isValidDateRange engine s s" if "Date_parse engine s = TimeValue a" for a
    using that by (simp add: isValidDateRange_def)
  moreover have "\<not> isValidDateRange engine s e"
    if "Date_parse engine s = TimeValue a \<and> Date_parse engine e = TimeValue b \<and> b < a" for a b
    using that by (simp add: isValidDateRange_def)
  ultimately show ?thesis
    using isValidDateRange_TimeValue [of engine s e] isValidDateRange_iso_date [of d1 d2 engine]
    by blast
qed

theorem isValidDateRange_iff_witness:
  "isValidDateRange unparseable ''2024-03-04'' ''2024-03-10'' \<and>
   isValidDateRange unparseable ''2024-03-10'' ''2024-03-10'' \<and>
   \<not> isValidDateRange unparseable ''2024-03-11'' ''2024-03-10''"
proof -
  have v: "four_digit_year_date (2024, 3, 4)" "four_digit_year_date (2024, 3, 10)"
    "four_digit_year_date (2024, 3, 11)"
    by (simp_all add: days_in_month_def)
  have s: "iso_date (2024, 3, 4) = ''2024-03-04''" "iso_date (2024, 3, 10) = ''2024-03-10''"
    "iso_date (2024, 3, 11) = ''2024-03-11''"
    by (simp_all add: iso_date_def iso_year_def pad4_def pad3_def pad2_def digit_char_def)
  from isValidDateRange_iff [of unparseable "''''" "''''" "(2024, 3, 4)" "(2024, 3, 10)"] v
  have 1: "isValidDateRange unparseable ''2024-03-04'' ''2024-03-10''"
    by (simp add: s)
  from isValidDateRange_iff [of unparseable "''''" "''''" "(2024, 3, 10)" "(2024, 3, 10)"] v
  have 2: "isValidDateRange unparseable ''2024-03-10'' ''2024-03-10''"
    by (simp add: s)
  from isValidDateRange_iff [of unparseable "''''" "''''" "(2024, 3, 11)" "(2024, 3, 10)"] v
  have 3: "\<not> isValidDateRange unparseable ''2024-03-11'' ''2024-03-10''"
    by (simp add: s)
  from 1 2 3 show ?thesis by simp
qed

text \<open>
  Claim C10. \<^verbatim>\<open>isValidDateRange\<close> is a total function of two strings: neither the
  \<^verbatim>\<open>Date\<close> constructor on a string nor the comparison throws. When either string does
  not parse (its time value is \<^verbatim>\<open>NaN\<close>), the result is false.
\<close>

theorem isValidDateRange_unparseable:
  assumes "Date_parse engine s = NaN \<or> Date_parse engine e = NaN"
  shows "isValidDateRange engine s e = False"
  using assms by (cases "Date_parse engine s") (auto simp: isValidDateRange_def)

theorem isValidDateRange_unparseable_witness:
  "Date_parse unparseable ''tomorrow'' = NaN \<and>
   isValidDateRange unparseable ''tomorrow'' ''2024-03-10'' = False \<and>
   isValidDateRange unparseable ''2024-03-10'' ''tomorrow'' = False \<and>
   isValidDateRange unparseable '''' '''' = False"
proof -
  have n: "Date_parse unparseable ''tomorrow'' = NaN" "Date_parse unparseable '''' = NaN"
    by (simp_all add: Date_parse_def parse_iso_date_def unparseable_def)
  from n isValidDateRange_unparseable [of unparseable "''tomorrow''" "''2024-03-10''"]
    isValidDateRange_unparseable [of unparseable "''2024-03-10''" "''tomorrow''"]
    isValidDateRange_unparseable [of unparseable "''''" "''''"]
  show ?thesis by simp
qed


subsection \<open>The date n days ago\<close>

text \<open>
  Where the offset of local time from UTC is the same now and at the instant \<^verbatim>\<open>setDate\<close>
  arrives at, and that instant is in the range of \<^verbatim>\<open>Date\<close>, the subtraction in local time
  moves the time value back by whole days: \<^verbatim>\<open>getDateStringDaysAgo\<close> returns the UTC date
  whose day number is \<open>daysAgo\<close> less than that of the date \<^verbatim>\<open>getTodayDateString\<close>
  returns, across the ends of months and years.
\<close>

theorem getDateStringDaysAgo_constant_offset:
  assumes "offset_at_utc tz now = c"
    and "offset_at_local tz (now + c - daysAgo * msPerDay) = c"
    and "\<bar>now - daysAgo * msPerDay\<bar> \<le> 8640000000000000"
  shows "getDateStringDaysAgo tz now daysAgo =
      Inr (iso_date (civil_from_days (Day now - daysAgo))) \<and>
    getTodayDateString now = Inr (iso_date (civil_from_days (Day now))) \<and>
    (case civil_from_days (Day now - daysAgo) of (y, m, d) \<Rightarrow> days_from_civil y m d) =
      (case civil_from_days (Day now) of (y, m, d) \<Rightarrow> days_from_civil y m d) - daysAgo"
proof -
  obtain y m d where cfd: "civil_from_days (Day (now + c)) = (y, m, d)"
    by (cases "civil_from_days (Day (now + c))") blast
  have "setDate tz now (getDate tz now - daysAgo) = TimeValue (now - daysAgo * msPerDay)"
    using assms
    by (simp add: setDate_def getDate_def LocalTime_def Let_def cfd
        MakeDay_civil_from_days [OF cfd] MakeDate_Day UTC_def TimeClip_def)
  then have "getDateStringDaysAgo tz now daysAgo =
      Inr (iso_date (civil_from_days (Day now - daysAgo)))"
    unfolding getDateStringDaysAgo_def Let_def
    by (simp only: split_T_first_toISOString Day_shift)
  moreover have "getTodayDateString now = Inr (iso_date (civil_from_days (Day now)))"
    unfolding getTodayDateString_def by (rule split_T_first_toISOString)
  moreover have
    "(case civil_from_days (Day now - daysAgo) of (y, m, d) \<Rightarrow> days_from_civil y m d) =
      (case civil_from_days (Day now) of (y, m, d) \<Rightarrow> days_from_civil y m d) - daysAgo"
    by (simp only: days_from_civil_civil_from_days)
  ultimately show ?thesis by blast
qed

text \<open>The example of the specification: at noon UTC on 2024-03-10, six days ago.\<close>

theorem getDateStringDaysAgo_constant_offset_witness:
  "getTodayDateString 1710072000000 = Inr ''2024-03-10'' \<and>
   getDateStringDaysAgo utc_zone 1710072000000 6 = Inr ''2024-03-04'' \<and>
   getDateStringDaysAgo utc_zone 1710072000000 10 = Inr ''2024-02-29'' \<and>
   getDateStringDaysAgo utc_zone 1710072000000 70 = Inr ''2023-12-31''"
proof -
  have e: "iso_date (civil_from_days (Day 1710072000000)) = ''2024-03-10''"
    "iso_date (civil_from_days (Day 1710072000000 - 6)) = ''2024-03-04''"
    "iso_date (civil_from_days (Day 1710072000000 - 10)) = ''2024-02-29''"
    "iso_date (civil_from_days (Day 1710072000000 - 70)) = ''2023-12-31''"
    by code_simp+
  have z: "offset_at_utc utc_zone t = 0" "offset_at_local utc_zone t = 0" for t
    by (simp_all add: utc_zone_def)
  from getDateStringDaysAgo_constant_offset [of utc_zone 1710072000000 0 6]
    getDateStringDaysAgo_constant_offset [of utc_zone 1710072000000 0 10]
    getDateStringDaysAgo_constant_offset [of utc_zone 1710072000000 0 70]
  show ?thesis
    by (simp add: z e msPerDay_def)
qed

text \<open>
  Claim C6 fails on the code. \<^verbatim>\<open>getDateStringDaysAgo\<close> subtracts the days in local time
  and prints the UTC date of the result. In the United Kingdom at 00:30 on 1 November 2024
  the local day of the month is 1, \<^verbatim>\<open>setDate(-5)\<close> gives 00:30 local time on 26 October,
  which is summer time, hence 23:30 UTC on 25 October: the function returns
  \<^verbatim>\<open>2024-10-25\<close>, seven days before the \<^verbatim>\<open>2024-11-01\<close> that \<^verbatim>\<open>getTodayDateString\<close>
  returns at the same moment, not six.
\<close>

theorem getDateStringDaysAgo_london:
  "getDate europe_london_2024 1730421000000 = 1 \<and>
   getDateStringDaysAgo europe_london_2024 1730421000000 6 = Inr ''2024-10-25'' \<and>
   getTodayDateString 1730421000000 = Inr ''2024-11-01''"
  by code_simp

section \<open>Properties of the validation gate\<close>

lemma fetchData_issues_request: "list_ex is_Fetch (fetchData N fetch latitude longitude s e)"
  by (simp add: fetchData_def Let_def)

lemma dateRangeError_run_fetchData:
  "dateRangeError (run (fetchData N fetch latitude longitude s e) st) = dateRangeError st"
  by (simp add: run_fetchData split: sum.split)

text \<open>
  Claim C7. When the range is not valid, in particular when both dates parse and the start
  is after the end, \<^verbatim>\<open>handleApplyFilter\<close> does one thing: it sets the range error, a cell
  of its own, and leaves the hook's \<open>error\<close>, \<open>data\<close> and \<open>loading\<close> as they were; no
  request is issued. A request is issued exactly when \<^verbatim>\<open>isValidDateRange\<close> holds, and
  then the range error is cleared first.
\<close>

theorem handleApplyFilter_validation_gate:
  "let effects = handleApplyFilter N engine fetch LAT LON st; st' = run effects st in
     (\<not> isValidDateRange engine (startDate st) (endDate st) \<longrightarrow>
        effects = [SetDateRangeError (Some ''Start date cannot be after end date.'')] \<and>
        dateRangeError st' = Some ''Start date cannot be after end date.'' \<and>
        error st' = error st \<and> data st' = data st \<and> loading st' = loading st) \<and>
     (isValidDateRange engine (startDate st) (endDate st) \<longrightarrow>
        effects = SetDateRangeError None #
          fetchData N fetch LAT LON (startDate st) (endDate st) \<and>
        dateRangeError st' = None) \<and>
     (list_ex is_Fetch effects \<longleftrightarrow> isValidDateRange engine (startDate st) (endDate st)) \<and>
     (\<forall>a b. Date_parse engine (startDate st) = TimeValue a \<and>
        Date_parse engine (endDate st) = TimeValue b \<and> b < a \<longrightarrow>
        \<not> list_ex is_Fetch effects \<and>
        dateRangeError st' = Some ''Start date cannot be after end date.'' \<and>
        error st' = error st)"
proof (cases "isValidDateRange engine (startDate st) (endDate st)")
  case True
  then have "\<not> (Date_parse engine (startDate st) = TimeValue a \<and>
      Date_parse engine (endDate st) = TimeValue b \<and> b < a)" for a b
    by (auto simp: isValidDateRange_def)
  with True show ?thesis
    by (simp add: handleApplyFilter_def Let_def run_Cons fetchData_issues_request
        dateRangeError_run_fetchData)
next
  case False
  then show ?thesis
    by (simp add: handleApplyFilter_def Let_def run_Cons run_Nil)
qed

theorem handleApplyFilter_validation_gate_witness:
  "handleApplyFilter int_numbers unparseable network_down 9 7 reversed_range_state =
     [SetDateRangeError (Some ''Start date cannot be after end date.'')] \<and>
   run (handleApplyFilter int_numbers unparseable network_down 9 7 reversed_range_state)
     reversed_range_state =
     reversed_range_state\<lparr>dateRangeError := Some ''Start date cannot be after end date.''\<rparr> \<and>
   list_ex is_Fetch (handleApplyFilter int_numbers unparseable network_down 9 7 stale_state) \<and>
   dateRangeError (run (handleApplyFilter int_numbers unparseable network_down 9 7 stale_state)
     stale_state) = None"
proof -
  have r: "\<not> isValidDateRange unparseable (startDate reversed_range_state)
      (endDate reversed_range_state)"
    by (simp add: reversed_range_state_def isValidDateRange_def Date_parse_def
        parse_iso_date_def digit_value_def days_in_month_def days_from_civil_def msPerDay_def)
  have v: "isValidDateRange unparseable (startDate stale_state) (endDate stale_state)"
    by (simp add: stale_state_def isValidDateRange_def Date_parse_def
        parse_iso_date_def digit_value_def days_in_month_def days_from_civil_def msPerDay_def)
  from handleApplyFilter_validation_gate [of int_numbers unparseable network_down 9 7
      reversed_range_state, unfolded Let_def] r
  have 1: "handleApplyFilter int_numbers unparseable network_down 9 7 reversed_range_state =
     [SetDateRangeError (Some ''Start date cannot be after end date.'')]"
    by blast
  from handleApplyFilter_validation_gate [of int_numbers unparseable network_down 9 7
      stale_state, unfolded Let_def] v
  have 2: "list_ex is_Fetch (handleApplyFilter int_numbers unparseable network_down 9 7
      stale_state)"
    and 3: "dateRangeError (run (handleApplyFilter int_numbers unparseable network_down 9 7
      stale_state) stale_state) = None"
    by blast+
  from 1 2 3 show ?thesis
    by (simp add: run_Cons run_Nil)
qed

end
